theory Spec2Isabelle
  imports Main "HOL-Library.Product_Lexorder"
begin

section \<open>Credential store (models.py)\<close>

text \<open>
  A row of the \<open>users\<close> table, as \<open>create_user\<close> inserts it
  (\<open>INSERT INTO users (username, password_hash, role)\<close>).
\<close>

record user_row =
  username :: string
  password_hash :: string
  role :: string

text \<open>
  The database file behind \<open>get_db_connection\<close>. Only the \<open>users\<close> table is read
  by the functions modelled here; rows are kept in insertion order.
\<close>

record database =
  users :: "user_row list"

text \<open>
  \<open>get_user_by_username\<close>: opens a connection, runs
  \<open>SELECT * FROM users WHERE username = ?\<close>, takes \<open>fetchone()\<close> (the first matching
  row, or \<open>None\<close>) and closes the connection without a commit. The database is threaded
  through so that the effect of the call on it is part of the model: a \<open>SELECT\<close> writes
  nothing.
\<close>

definition get_user_by_username :: "database \<Rightarrow> string \<Rightarrow> user_row option \<times> database" where
  "get_user_by_username db name =
     (find (\<lambda>u. username u = name) (users db), db)"

text \<open>
  \<open>check_user_password\<close>. The hash comparison \<open>check_password_hash\<close> is werkzeug's, a
  library function outside the repository: it is a parameter \<open>chk\<close> of the model, applied
  to the stored hash and the submitted password. Python's \<open>and\<close> evaluates it only when a
  row was found (a fetched row is truthy: it has columns).
\<close>

definition check_user_password ::
  "(string \<Rightarrow> string \<Rightarrow> bool) \<Rightarrow> database \<Rightarrow> string \<Rightarrow> string \<Rightarrow> user_row option \<times> database" where
  "check_user_password chk db name password =
     (case get_user_by_username db name of
        (None, db') \<Rightarrow> (None, db')
      | (Some user, db') \<Rightarrow>
          if chk (password_hash user) password then (Some user, db') else (None, db'))"

section \<open>Calendar dates\<close>

text \<open>
  A \<open>datetime.date\<close> is modelled by its proleptic Gregorian ordinal
  (\<open>date.toordinal()\<close>, day 1 being 0001-01-01): on dates, \<open><\<close> and \<open><=\<close> are the
  order of the ordinals, \<open>(a - b).days\<close> is their difference and
  \<open>d + timedelta(days=n)\<close> adds \<open>n\<close>. The application only adds seven days to the
  current day, which stays a date for every day before 9999-12-25.
\<close>

type_synonym date = int

text \<open>
  The ordinal of a calendar date, as the standard library computes it
  (\<open>_is_leap\<close>, \<open>_days_before_year\<close>, \<open>_days_before_month\<close>, \<open>_ymd2ord\<close>); used to
  write concrete dates.
\<close>

definition is_leap :: "int \<Rightarrow> bool" where
  "is_leap year = (year mod 4 = 0 \<and> (year mod 100 \<noteq> 0 \<or> year mod 400 = 0))"

definition days_before_year :: "int \<Rightarrow> int" where
  "days_before_year year =
     (let y = year - 1 in y * 365 + y div 4 - y div 100 + y div 400)"

definition days_before_month :: "int \<Rightarrow> nat \<Rightarrow> int" where
  "days_before_month year month =
     [0, 0, 31, 59, 90, 120, 151, 181, 212, 243, 273, 304, 334] ! month
       + (if month > 2 \<and> is_leap year then 1 else 0)"

definition ymd2ord :: "int \<Rightarrow> nat \<Rightarrow> int \<Rightarrow> date" where
  "ymd2ord year month day = days_before_year year + days_before_month year month + day"

section \<open>Form text\<close>


definition isspace :: "char \<Rightarrow> bool" where
  "isspace c = (let n = (of_char c :: nat) in (9 \<le> n \<and> n \<le> 13) \<or> (28 \<le> n \<and> n \<le> 32))"

definition strip :: "string \<Rightarrow> string" where
  "strip l = rev (dropWhile isspace (rev (dropWhile isspace l)))"

definition islower :: "char \<Rightarrow> bool" where
  "islower c = (let n = (of_char c :: nat) in 97 \<le> n \<and> n \<le> 122)"

definition upper_char :: "char \<Rightarrow> char" where
  "upper_char c = (if islower c then char_of ((of_char c :: nat) - 32) else c)"

definition upper :: "string \<Rightarrow> string" where
  "upper l = map upper_char l"


text \<open>
  A form field that the handler passes to \<open>int()\<close> or that is parsed as a date:
  missing or empty (\<open>Ausente\<close>, falsy in \<open>all([...])\<close>), text that the conversion
  rejects with \<open>ValueError\<close> (\<open>Invalido\<close>), or text that converts to a value.
\<close>

datatype 'a campo = Ausente | Invalido | Valor 'a

section \<open>Warehouse data model\<close>

text \<open>
  The classes \<open>ProdutoCatalogo\<close>, \<open>AreaArmazem\<close>, \<open>ProdutoLacteo\<close> and \<open>Venda\<close> that
  app.py imports are not among the source files; their fields are the ones app.py reads
  and the spec's data model lists. Field names that several classes share carry the
  class as a prefix or suffix.
\<close>

record ProdutoCatalogo =
  id_produto :: string
  nome_catalogo :: string

record AreaArmazem =
  id_area :: string
  nome_area :: string
  tipo_armazenamento :: string

text \<open>
  A \<open>ProdutoLacteo\<close> as the add handler constructs it, and a stored one
  (\<open>Instancia\<close>), which also carries the system-assigned instance id (\<open>p.id\<close> in the
  source) and the reference to the area that owns it.
\<close>

record ProdutoLacteo =
  id_catalogo_produto :: string
  nome :: string
  quantidade :: int
  data_validade :: date
  lote :: string

record Instancia = ProdutoLacteo +
  id_instancia :: int
  area_ref :: string

text \<open>
  A \<open>Venda\<close> with the eight values the sell handler passes to its constructor. The
  handler passes the expiry date as \<open>strftime('%Y-%m-%d')\<close> text; the model keeps the
  date that text denotes.
\<close>

record Venda =
  venda_id_catalogo_produto :: string
  venda_nome :: string
  venda_lote :: string
  data_validade_produto :: date
  quantidade_vendida :: int
  destino :: string
  area_origem_id :: string
  usuario_responsavel :: string

record armazem =
  areas :: "AreaArmazem list"
  catalogo :: "ProdutoCatalogo list"
  produtos :: "Instancia list"
  vendas :: "Venda list"

subsection \<open>Queries of the model classes\<close>

text \<open>
  Modelled from the spec: \<open>AreaArmazem.listar_todas\<close> is missing from the sources; the
  spec's \<open>list()\<close> returns the areas in insertion order.
\<close>

definition AreaArmazem_listar_todas :: "armazem \<Rightarrow> AreaArmazem list" where
  "AreaArmazem_listar_todas s = areas s"

text \<open>
  Modelled from the spec: \<open>AreaArmazem.buscar_por_id\<close> is missing from the sources; the
  spec's \<open>get(id)\<close> returns the area with that id, or none.
\<close>

definition AreaArmazem_buscar_por_id :: "armazem \<Rightarrow> string \<Rightarrow> AreaArmazem option" where
  "AreaArmazem_buscar_por_id s ida = find (\<lambda>a. id_area a = ida) (areas s)"

text \<open>
  Modelled from the spec: \<open>ProdutoCatalogo.buscar_por_id\<close> is missing from the sources;
  the spec's \<open>get(id)\<close> returns the catalog product with that id, or none.
\<close>

definition ProdutoCatalogo_buscar_por_id :: "armazem \<Rightarrow> string \<Rightarrow> ProdutoCatalogo option" where
  "ProdutoCatalogo_buscar_por_id s idp = find (\<lambda>c. id_produto c = idp) (catalogo s)"

text \<open>
  Modelled from the spec: \<open>area.listar_produtos\<close> is missing from the sources; an area
  owns the stock instances whose owning-area reference names it.
\<close>

definition listar_produtos :: "armazem \<Rightarrow> AreaArmazem \<Rightarrow> Instancia list" where
  "listar_produtos s area = filter (\<lambda>p. area_ref p = id_area area) (produtos s)"

text \<open>
  Modelled from the spec: \<open>ProdutoLacteo.buscar_instancia_por_id\<close> is missing from the
  sources; it returns the stock instance with that instance id, or none.
\<close>

definition ProdutoLacteo_buscar_instancia_por_id :: "armazem \<Rightarrow> int \<Rightarrow> Instancia option" where
  "ProdutoLacteo_buscar_instancia_por_id s i = find (\<lambda>p. id_instancia p = i) (produtos s)"

section \<open>Reports (app.py, pagina\_relatorios)\<close>

text \<open>
  The value stored under a key of \<open>estoque_total\<close>:
  \<open>{"nome": ..., "quantidade_total": ...}\<close>.
\<close>

record total =
  total_nome :: string
  quantidade_total :: int

text \<open>
  The body of the inner loop over the instances of an area: a key that is not in the
  dictionary yet is entered with the instance's name and total 0, then the instance's
  quantity is added to the key's total.
\<close>

definition somar_instancia :: "(string \<rightharpoonup> total) \<Rightarrow> Instancia \<Rightarrow> (string \<rightharpoonup> total)" where
  "somar_instancia estoque prod_instancia =
     (let chave_produto = id_catalogo_produto prod_instancia;
          entrada = (case estoque chave_produto of
                       None \<Rightarrow> \<lparr>total_nome = nome prod_instancia, quantidade_total = 0\<rparr>
                     | Some t \<Rightarrow> t)
      in estoque(chave_produto \<mapsto>
           entrada\<lparr>quantidade_total := quantidade_total entrada + quantidade prod_instancia\<rparr>))"

definition estoque_total :: "armazem \<Rightarrow> (string \<rightharpoonup> total)" where
  "estoque_total s =
     fold (\<lambda>area_obj estoque. fold (\<lambda>p e. somar_instancia e p) (listar_produtos s area_obj) estoque)
       (AreaArmazem_listar_todas s) Map.empty"

text \<open>
  An entry of \<open>produtos_alerta_validade\<close>. The source stores \<open>produto_obj.to_dict()\<close>;
  the model keeps the instance itself.
\<close>

record alerta =
  alerta_area_id :: string
  alerta_nome_area :: string
  alerta_produto :: Instancia
  status_validade :: string
  dias_para_vencer :: int

definition dias_alerta_antecedencia :: int where
  "dias_alerta_antecedencia = 7"

definition limite_alerta :: "date \<Rightarrow> date" where
  "limite_alerta data_hoje_obj = data_hoje_obj + dias_alerta_antecedencia"

text \<open>The status the loop body computes for one instance; empty when no alert is due.\<close>

definition status_do_produto :: "date \<Rightarrow> Instancia \<Rightarrow> string" where
  "status_do_produto data_hoje_obj produto_obj =
     (if data_validade produto_obj < data_hoje_obj then ''VENCIDO''
      else if data_validade produto_obj \<le> limite_alerta data_hoje_obj then ''PROXIMO_VENCIMENTO''
      else [])"

text \<open>The loop body: the list of alerts after visiting one instance of an area.\<close>

definition visitar_produto :: "date \<Rightarrow> AreaArmazem \<Rightarrow> alerta list \<Rightarrow> Instancia \<Rightarrow> alerta list" where
  "visitar_produto data_hoje_obj area_obj alertas produto_obj =
     (let status = status_do_produto data_hoje_obj produto_obj;
          dias_para_vencer_calc = data_validade produto_obj - data_hoje_obj
      in if status \<noteq> [] then
           alertas @ [\<lparr>alerta_area_id = id_area area_obj, alerta_nome_area = nome_area area_obj,
                       alerta_produto = produto_obj, status_validade = status,
                       dias_para_vencer = dias_para_vencer_calc\<rparr>]
         else alertas)"

text \<open>The alerts in the order the two nested loops append them, before the sort.\<close>

definition alertas_coletados :: "armazem \<Rightarrow> date \<Rightarrow> alerta list" where
  "alertas_coletados s data_hoje_obj =
     fold (\<lambda>area_obj alertas.
             fold (\<lambda>p a. visitar_produto data_hoje_obj area_obj a p) (listar_produtos s area_obj) alertas)
       (AreaArmazem_listar_todas s) []"

text \<open>
  The key of the final \<open>sort\<close>: the pair \<open>(status != "VENCIDO", dias_para_vencer)\<close>.
  Python compares the tuples lexicographically, with \<open>False < True\<close>; its sort is
  stable, as \<open>sort_key\<close> is.
\<close>

definition chave_ordenacao :: "alerta \<Rightarrow> bool \<times> int" where
  "chave_ordenacao x = (status_validade x \<noteq> ''VENCIDO'', dias_para_vencer x)"

definition produtos_alerta_validade :: "armazem \<Rightarrow> date \<Rightarrow> alerta list" where
  "produtos_alerta_validade s data_hoje_obj =
     sort_key chave_ordenacao (alertas_coletados s data_hoje_obj)"

text \<open>
  What \<open>pagina_relatorios\<close> hands to the template, for the current day \<open>date.today()\<close>:
  the totals, the alerts and the length of the warning window. The list of sales, which
  the handler orders by the timestamp the \<open>Venda\<close> class assigns, is not part of the
  model.
\<close>

definition pagina_relatorios :: "armazem \<Rightarrow> date \<Rightarrow> (string \<rightharpoonup> total) \<times> alerta list \<times> int" where
  "pagina_relatorios s data_hoje_obj =
     (estoque_total s, produtos_alerta_validade s data_hoje_obj, dias_alerta_antecedencia)"

section \<open>Stock operations of the model classes\<close>

text \<open>
  The next instance id: one more than the largest id in use (1 in an empty table).
\<close>

definition novo_id :: "Instancia list \<Rightarrow> int" where
  "novo_id ps = foldr max (map id_instancia ps) 0 + 1"

text \<open>
  The first instance of area \<open>a\<close> with catalog product \<open>c\<close> and lot \<open>l\<close> gets \<open>q\<close> units
  more, in place; \<open>None\<close> when the area holds no such instance.
\<close>

fun somar_no_lote :: "string \<Rightarrow> string \<Rightarrow> string \<Rightarrow> int \<Rightarrow> Instancia list \<Rightarrow> Instancia list option" where
  "somar_no_lote a c l q [] = None"
| "somar_no_lote a c l q (p # ps) =
     (if area_ref p = a \<and> id_catalogo_produto p = c \<and> lote p = l
      then Some (p\<lparr>quantidade := quantidade p + q\<rparr> # ps)
      else map_option ((#) p) (somar_no_lote a c l q ps))"

text \<open>
  Modelled from the spec: \<open>area.adicionar_produto\<close> is missing from the sources. The
  spec's \<open>addOrMerge\<close>: if an instance with the same catalog product and lot already
  exists in the area, its quantity is incremented in place; otherwise a new instance with
  a fresh system-assigned id is created in the area.
\<close>

definition adicionar_produto :: "armazem \<Rightarrow> AreaArmazem \<Rightarrow> ProdutoLacteo \<Rightarrow> armazem" where
  "adicionar_produto s area novo =
     (case somar_no_lote (id_area area) (id_catalogo_produto novo) (lote novo) (quantidade novo)
             (produtos s) of
        Some ps \<Rightarrow> s\<lparr>produtos := ps\<rparr>
      | None \<Rightarrow>
          s\<lparr>produtos := produtos s @
               [\<lparr>id_catalogo_produto = id_catalogo_produto novo, nome = nome novo,
                 quantidade = quantidade novo, data_validade = data_validade novo,
                 lote = lote novo, id_instancia = novo_id (produtos s),
                 area_ref = id_area area\<rparr>]\<rparr>)"

text \<open>
  The first instance of area \<open>a\<close> with instance id \<open>i\<close> loses \<open>q\<close> units, in place;
  \<open>None\<close> when the area holds no such instance, when \<open>q\<close> is not positive and when the
  instance holds fewer than \<open>q\<close> units.
\<close>

fun baixar_estoque :: "string \<Rightarrow> int \<Rightarrow> int \<Rightarrow> Instancia list \<Rightarrow> Instancia list option" where
  "baixar_estoque a i q [] = None"
| "baixar_estoque a i q (p # ps) =
     (if area_ref p = a \<and> id_instancia p = i
      then (if 0 < q \<and> q \<le> quantidade p then Some (p\<lparr>quantidade := quantidade p - q\<rparr> # ps)
            else None)
      else map_option ((#) p) (baixar_estoque a i q ps))"

text \<open>
  Modelled from the spec: \<open>area.remover_produto\<close> is missing from the sources. The spec's
  removal of stock on a sale: the quantity to remove must be positive and at most the
  instance's quantity; the instance's quantity is decremented; nothing changes when a
  precondition is unmet. The spec leaves open whether an instance that reaches quantity 0
  is removed or kept; the model keeps it as a zero-stock row. The result says whether
  stock was removed.
\<close>

definition remover_produto :: "armazem \<Rightarrow> AreaArmazem \<Rightarrow> int \<Rightarrow> int \<Rightarrow> bool \<times> armazem" where
  "remover_produto s area i q =
     (case baixar_estoque (id_area area) i q (produtos s) of
        Some ps \<Rightarrow> (True, s\<lparr>produtos := ps\<rparr>)
      | None \<Rightarrow> (False, s))"

text \<open>
  Modelled from the spec: \<open>Venda.registrar\<close> is missing from the sources. The spec's
  \<open>append(record)\<close>: a pure insert at the end of the ledger.
\<close>

definition Venda_registrar :: "armazem \<Rightarrow> Venda \<Rightarrow> armazem" where
  "Venda_registrar s nova_venda = s\<lparr>vendas := vendas s @ [nova_venda]\<rparr>"

text \<open>
  Modelled from the spec: \<open>produto.atualizar_instancia\<close> is missing from the sources. The
  spec's \<open>update\<close>: the new expiry date must parse; the instance gets the new quantity,
  expiry date and lot; no merge with other instances occurs. The result says whether the
  instance was updated.
\<close>

definition atualizar_instancia ::
  "armazem \<Rightarrow> Instancia \<Rightarrow> int \<Rightarrow> date campo \<Rightarrow> string \<Rightarrow> bool \<times> armazem" where
  "atualizar_instancia s produto_instancia nova_quantidade nova_data_validade novo_lote =
     (case nova_data_validade of
        Valor d \<Rightarrow>
          (True, s\<lparr>produtos :=
             map (\<lambda>p. if id_instancia p = id_instancia produto_instancia
                       then p\<lparr>quantidade := nova_quantidade, data_validade := d, lote := novo_lote\<rparr>
                       else p) (produtos s)\<rparr>)
      | _ \<Rightarrow> (False, s))"

text \<open>
  Modelled from the spec: \<open>produto.deletar_instancia\<close> is missing from the sources. The
  spec's \<open>delete\<close>: removes the instance entirely, regardless of remaining quantity.
\<close>

definition deletar_instancia :: "armazem \<Rightarrow> Instancia \<Rightarrow> bool \<times> armazem" where
  "deletar_instancia s produto_instancia =
     (True, s\<lparr>produtos :=
        filter (\<lambda>p. id_instancia p \<noteq> id_instancia produto_instancia) (produtos s)\<rparr>)"

text \<open>
  The instances that an area holds of one catalog product and lot: the rows that share
  the merge key of \<open>adicionar_produto\<close>.
\<close>

definition instancias_do_lote :: "armazem \<Rightarrow> AreaArmazem \<Rightarrow> string \<Rightarrow> string \<Rightarrow> Instancia list" where
  "instancias_do_lote s area c l =
     filter (\<lambda>p. id_catalogo_produto p = c \<and> lote p = l) (listar_produtos s area)"

section \<open>Request handlers (app.py)\<close>

text \<open>
  A handler's answer is the message it flashes, with the category it flashes it under.
  Each constructor of \<open>mensagem\<close> is one \<open>flash\<close> call of the source, without the
  values interpolated into its text. The redirect or page that follows is not modelled,
  nor is the \<open>login_necessario\<close> wrapper: a handler here is the decorated function's
  body, run for a logged-in user who holds the permission.
\<close>

datatype categoria = Success | Warning | Danger

datatype mensagem =
    AreaNaoEncontrada
  | TodosCamposObrigatorios
  | QuantidadeDeveSerPositiva
  | ProdutoCatalogoInvalido
  | ProdutoAdicionado
  | ErroAoAdicionar
  | InformacoesInsuficientes
  | QuantidadeVendaDeveSerPositiva
  | InstanciaNaoEncontrada
  | NaoPertenceAArea
  | QuantidadeInsuficiente
  | VendaRegistrada
  | FalhaAoVender
  | VendaInvalida
  | AreaExcluida
  | AreaEmUso
  | QuantidadeNegativa
  | ProdutoAtualizado
  | ErroAoAtualizar
  | QuantidadeInvalida
  | ProdutoExcluido
  | ErroAoExcluir

type_synonym flash = "mensagem \<times> categoria"

text \<open>
  Modelled from the spec: \<open>area.deletar\<close> is missing from the sources. The spec's
  \<open>delete\<close> of an area fails with \<open>InUse\<close> if the area still owns stock instances and
  otherwise removes the area. The result is the pair \<open>(sucesso, mensagem)\<close> the handler
  unpacks.
\<close>

definition deletar :: "armazem \<Rightarrow> AreaArmazem \<Rightarrow> (bool \<times> mensagem) \<times> armazem" where
  "deletar s area =
     (if listar_produtos s area \<noteq> [] then ((False, AreaEmUso), s)
      else ((True, AreaExcluida),
            s\<lparr>areas := filter (\<lambda>a. id_area a \<noteq> id_area area) (areas s)\<rparr>))"

subsection \<open>adicionar\_produto\_na\_area\<close>

record form_adicionar =
  form_id_produto_catalogo :: string
  form_quantidade :: "int campo"
  form_data_validade :: "date campo"
  form_lote :: string

text \<open>
  The handler, in the order of the source: the area lookup; the test that all four
  fields are filled in; \<open>int(quantidade_str)\<close>, whose \<open>ValueError\<close> the handler catches;
  the test \<open>quantidade <= 0\<close>; the catalog lookup; the construction of the
  \<open>ProdutoLacteo\<close> with the lot stripped and upper-cased, which parses the date and
  raises \<open>ValueError\<close> on text that is no date; the call of \<open>area.adicionar_produto\<close>.
\<close>

definition adicionar_produto_na_area :: "armazem \<Rightarrow> string \<Rightarrow> form_adicionar \<Rightarrow> flash \<times> armazem" where
  "adicionar_produto_na_area s ida f =
     (case AreaArmazem_buscar_por_id s ida of
        None \<Rightarrow> ((AreaNaoEncontrada, Danger), s)
      | Some area \<Rightarrow>
          if form_id_produto_catalogo f = [] \<or> form_quantidade f = Ausente
             \<or> form_data_validade f = Ausente \<or> form_lote f = []
          then ((TodosCamposObrigatorios, Warning), s)
          else
            (case form_quantidade f of
               Valor qtd \<Rightarrow>
                 if qtd \<le> 0 then ((QuantidadeDeveSerPositiva, Warning), s)
                 else
                   (case ProdutoCatalogo_buscar_por_id s (form_id_produto_catalogo f) of
                      None \<Rightarrow> ((ProdutoCatalogoInvalido, Danger), s)
                    | Some produto_do_catalogo_obj \<Rightarrow>
                        (case form_data_validade f of
                           Valor d \<Rightarrow>
                             ((ProdutoAdicionado, Success),
                              adicionar_produto s area
                                \<lparr>id_catalogo_produto = form_id_produto_catalogo f,
                                  nome = nome_catalogo produto_do_catalogo_obj,
                                  quantidade = qtd,
                                  data_validade = d,
                                  lote = upper (strip (form_lote f))\<rparr>)
                         | _ \<Rightarrow> ((ErroAoAdicionar, Danger), s)))
             | _ \<Rightarrow> ((ErroAoAdicionar, Danger), s)))"

subsection \<open>vender\_produto\_da\_area\<close>

record form_venda =
  id_instancia_venda :: "int campo"
  quantidade_venda :: "int campo"
  destino_venda :: string

text \<open>
  The handler, in the order of the source, for the logged-in user \<open>usuario\<close>
  (\<open>session['username']\<close>): the area lookup; the test that the three fields are filled
  in; the two \<open>int()\<close> conversions, whose \<open>ValueError\<close> the handler catches; the test
  \<open>quantidade_venda <= 0\<close>; the instance lookup; the test that the instance id is among
  the ids of the area's instances; the stock test; \<open>area.remover_produto\<close>; and, when
  that succeeded, the construction and registration of the \<open>Venda\<close>.
\<close>

definition vender_produto_da_area ::
  "armazem \<Rightarrow> string \<Rightarrow> string \<Rightarrow> form_venda \<Rightarrow> flash \<times> armazem" where
  "vender_produto_da_area s usuario ida f =
     (case AreaArmazem_buscar_por_id s ida of
        None \<Rightarrow> ((AreaNaoEncontrada, Danger), s)
      | Some area \<Rightarrow>
          if id_instancia_venda f = Ausente \<or> quantidade_venda f = Ausente \<or> destino_venda f = []
          then ((InformacoesInsuficientes, Warning), s)
          else
            (case (quantidade_venda f, id_instancia_venda f) of
               (Valor qv, Valor iv) \<Rightarrow>
                 if qv \<le> 0 then ((QuantidadeVendaDeveSerPositiva, Warning), s)
                 else
                   (case ProdutoLacteo_buscar_instancia_por_id s iv of
                      None \<Rightarrow> ((InstanciaNaoEncontrada, Danger), s)
                    | Some produto_para_venda \<Rightarrow>
                        if \<not> list_ex (\<lambda>p. id_instancia p = iv) (listar_produtos s area)
                        then ((NaoPertenceAArea, Danger), s)
                        else if quantidade produto_para_venda < qv
                        then ((QuantidadeInsuficiente, Warning), s)
                        else
                          (case remover_produto s area (id_instancia produto_para_venda) qv of
                             (True, s') \<Rightarrow>
                               ((VendaRegistrada, Success),
                                Venda_registrar s'
                                  \<lparr>venda_id_catalogo_produto = id_catalogo_produto produto_para_venda,
                                    venda_nome = nome produto_para_venda,
                                    venda_lote = lote produto_para_venda,
                                    data_validade_produto = data_validade produto_para_venda,
                                    quantidade_vendida = qv,
                                    destino = strip (destino_venda f),
                                    area_origem_id = ida,
                                    usuario_responsavel = usuario\<rparr>)
                           | (False, s') \<Rightarrow> ((FalhaAoVender, Danger), s')))
             | _ \<Rightarrow> ((VendaInvalida, Danger), s)))"

subsection \<open>excluir\_area\<close>

definition excluir_area :: "armazem \<Rightarrow> string \<Rightarrow> flash \<times> armazem" where
  "excluir_area s ida =
     (case AreaArmazem_buscar_por_id s ida of
        None \<Rightarrow> ((AreaNaoEncontrada, Danger), s)
      | Some area \<Rightarrow>
          (case deletar s area of
             ((True, msg), s') \<Rightarrow> ((msg, Success), s')
           | ((False, msg), s') \<Rightarrow> ((msg, Danger), s')))"

subsection \<open>editar\_produto\_em\_area\<close>

datatype metodo = GET | POST

record form_editar =
  editar_quantidade :: "int campo"
  editar_data_validade :: "date campo"
  editar_lote :: string

text \<open>
  The handler answers \<open>None\<close> where the source flashes nothing (a \<open>GET\<close> that passes
  the three lookups renders the form). On a \<open>POST\<close>: the test that the three fields are
  filled in; \<open>int(nova_quantidade_str)\<close>, whose \<open>ValueError\<close> the handler catches; the
  test \<open>nova_quantidade < 0\<close>; and \<open>atualizar_instancia\<close> with the lot stripped and
  upper-cased.
\<close>

definition editar_produto_em_area ::
  "armazem \<Rightarrow> string \<Rightarrow> int \<Rightarrow> metodo \<Rightarrow> form_editar \<Rightarrow> flash option \<times> armazem" where
  "editar_produto_em_area s ida id_instancia_produto m f =
     (case AreaArmazem_buscar_por_id s ida of
        None \<Rightarrow> (Some (AreaNaoEncontrada, Danger), s)
      | Some area \<Rightarrow>
          (case ProdutoLacteo_buscar_instancia_por_id s id_instancia_produto of
             None \<Rightarrow> (Some (InstanciaNaoEncontrada, Danger), s)
           | Some produto_instancia \<Rightarrow>
               if \<not> list_ex (\<lambda>p. id_instancia p = id_instancia_produto) (listar_produtos s area)
               then (Some (NaoPertenceAArea, Danger), s)
               else if m = POST then
                 (if editar_quantidade f = Ausente \<or> editar_data_validade f = Ausente
                     \<or> editar_lote f = []
                  then (Some (TodosCamposObrigatorios, Warning), s)
                  else
                    (case editar_quantidade f of
                       Valor nova_quantidade \<Rightarrow>
                         if nova_quantidade < 0 then (Some (QuantidadeNegativa, Warning), s)
                         else
                           (case atualizar_instancia s produto_instancia nova_quantidade
                                   (editar_data_validade f) (upper (strip (editar_lote f))) of
                              (True, s') \<Rightarrow> (Some (ProdutoAtualizado, Success), s')
                            | (False, s') \<Rightarrow> (Some (ErroAoAtualizar, Danger), s'))
                     | _ \<Rightarrow> (Some (QuantidadeInvalida, Danger), s)))
               else (None, s)))"

subsection \<open>excluir\_produto\_de\_area\<close>

definition excluir_produto_de_area :: "armazem \<Rightarrow> string \<Rightarrow> int \<Rightarrow> flash \<times> armazem" where
  "excluir_produto_de_area s ida id_instancia_produto =
     (case AreaArmazem_buscar_por_id s ida of
        None \<Rightarrow> ((AreaNaoEncontrada, Danger), s)
      | Some area \<Rightarrow>
          (case ProdutoLacteo_buscar_instancia_por_id s id_instancia_produto of
             None \<Rightarrow> ((InstanciaNaoEncontrada, Danger), s)
           | Some produto_instancia \<Rightarrow>
               if \<not> list_ex (\<lambda>p. id_instancia p = id_instancia_produto) (listar_produtos s area)
               then ((NaoPertenceAArea, Danger), s)
               else
                 (case deletar_instancia s produto_instancia of
                    (True, s') \<Rightarrow> ((ProdutoExcluido, Success), s')
                  | (False, s') \<Rightarrow> ((ErroAoExcluir, Danger), s'))))"

section \<open>An example warehouse\<close>

text \<open>
  Two areas and three stock instances: five units of milk in each area, expiring on
  2024-01-05 and 2024-01-15, and eight units of cheese expiring on 2024-02-01.
\<close>

definition area_a1 :: AreaArmazem where
  "area_a1 = \<lparr>id_area = ''A1'', nome_area = ''Camara fria'', tipo_armazenamento = ''refrigerado''\<rparr>"

definition area_a2 :: AreaArmazem where
  "area_a2 = \<lparr>id_area = ''A2'', nome_area = ''Deposito'', tipo_armazenamento = ''seco''\<rparr>"

definition inst_1 :: Instancia where
  "inst_1 = \<lparr>id_catalogo_produto = ''LEITE'', nome = ''Leite'', quantidade = 5,
              data_validade = 738890, lote = ''L1'', id_instancia = 1, area_ref = ''A1''\<rparr>"

definition inst_2 :: Instancia where
  "inst_2 = \<lparr>id_catalogo_produto = ''LEITE'', nome = ''Leite'', quantidade = 5,
              data_validade = 738900, lote = ''L2'', id_instancia = 2, area_ref = ''A2''\<rparr>"

definition inst_3 :: Instancia where
  "inst_3 = \<lparr>id_catalogo_produto = ''QUEIJO'', nome = ''Queijo'', quantidade = 8,
              data_validade = 738917, lote = ''Q1'', id_instancia = 3, area_ref = ''A1''\<rparr>"

definition armazem_exemplo :: armazem where
  "armazem_exemplo =
     \<lparr>areas = [area_a1, area_a2],
      catalogo = [\<lparr>id_produto = ''LEITE'', nome_catalogo = ''Leite''\<rparr>,
                  \<lparr>id_produto = ''QUEIJO'', nome_catalogo = ''Queijo''\<rparr>],
      produtos = [inst_1, inst_2, inst_3],
      vendas = []\<rparr>"

section \<open>Credential store: verification\<close>

text \<open>
  C9. For every username and password, \<open>check_user_password\<close> returns the stored row
  exactly when a row with that username exists (the one the lookup fetches) and the hash
  check accepts the password against that row's stored hash; it returns nothing when no
  row has the username and when the check rejects the password; and the database after
  the call is the database before it.
\<close>

theorem check_user_password_spec:
  "(fst (check_user_password chk db name password) = Some u \<longleftrightarrow>
      find (\<lambda>r. username r = name) (users db) = Some u \<and> chk (password_hash u) password)
   \<and> (fst (check_user_password chk db name password) = Some u \<longrightarrow>
        u \<in> set (users db) \<and> username u = name)
   \<and> ((\<forall>r \<in> set (users db). username r \<noteq> name) \<longrightarrow>
        fst (check_user_password chk db name password) = None)
   \<and> ((\<forall>r. find (\<lambda>r. username r = name) (users db) = Some r \<longrightarrow>
          \<not> chk (password_hash r) password) \<longrightarrow>
        fst (check_user_password chk db name password) = None)
   \<and> snd (check_user_password chk db name password) = db"
proof -
  let ?f = "find (\<lambda>r. username r = name) (users db)"
  show ?thesis
  proof (cases ?f)
    case None
    then show ?thesis
      by (simp add: check_user_password_def get_user_by_username_def)
  next
    case (Some r)
    then have "r \<in> set (users db)" "username r = name"
      by (auto simp: find_Some_iff)
    with Some show ?thesis
      by (auto simp: check_user_password_def get_user_by_username_def)
  qed
qed

theorem check_user_password_spec_witness:
  "fst (check_user_password (\<lambda>h p. h = ''#'' @ p)
          \<lparr>users = [\<lparr>username = ''ana'', password_hash = ''#leite'', role = ''gerente''\<rparr>]\<rparr>
          ''ana'' ''leite'')
     = Some \<lparr>username = ''ana'', password_hash = ''#leite'', role = ''gerente''\<rparr>
   \<and> fst (check_user_password (\<lambda>h p. h = ''#'' @ p)
          \<lparr>users = [\<lparr>username = ''ana'', password_hash = ''#leite'', role = ''gerente''\<rparr>]\<rparr>
          ''ana'' ''queijo'') = None
   \<and> fst (check_user_password (\<lambda>h p. h = ''#'' @ p)
          \<lparr>users = [\<lparr>username = ''ana'', password_hash = ''#leite'', role = ''gerente''\<rparr>]\<rparr>
          ''bia'' ''leite'') = None"
proof -
  let ?u = "\<lparr>username = ''ana'', password_hash = ''#leite'', role = ''gerente''\<rparr>"
  let ?db = "\<lparr>users = [?u]\<rparr>"
  let ?chk = "\<lambda>h p. h = ''#'' @ p"
  have a: "fst (check_user_password ?chk ?db ''ana'' ''leite'') = Some ?u"
    using check_user_password_spec [of ?chk ?db "''ana''" "''leite''" ?u] by simp
  have b: "fst (check_user_password ?chk ?db ''ana'' ''queijo'') = None"
    using check_user_password_spec [of ?chk ?db "''ana''" "''queijo''" ?u] by simp
  have c: "fst (check_user_password ?chk ?db ''bia'' ''leite'') = None"
    using check_user_password_spec [of ?chk ?db "''bia''" "''leite''" ?u] by simp
  show ?thesis using a b c by simp
qed

section \<open>Reports: total stock by product\<close>

lemma fold_aninhado:
  "fold (\<lambda>a acc. fold g (f a) acc) xs acc0 = fold g (concat (map f xs)) acc0"
  by (induction xs arbitrary: acc0) simp_all

lemma somar_instancia_chave:
  "somar_instancia m p k =
     (if id_catalogo_produto p = k
      then (case m k of
              None \<Rightarrow> Some \<lparr>total_nome = nome p, quantidade_total = quantidade p\<rparr>
            | Some t \<Rightarrow> Some (t\<lparr>quantidade_total := quantidade_total t + quantidade p\<rparr>))
      else m k)"
  by (simp add: somar_instancia_def Let_def split: option.splits)

lemma fold_somar_instancia:
  "fold (\<lambda>p e. somar_instancia e p) ps m k =
     (let qs = filter (\<lambda>p. id_catalogo_produto p = k) ps in
      case m k of
        None \<Rightarrow> (if qs = [] then None
                 else Some \<lparr>total_nome = nome (hd qs), quantidade_total = sum_list (map quantidade qs)\<rparr>)
      | Some t \<Rightarrow> Some (t\<lparr>quantidade_total := quantidade_total t + sum_list (map quantidade qs)\<rparr>))"
proof (induction ps arbitrary: m)
  case Nil
  then show ?case by (simp split: option.splits)
next
  case (Cons p ps)
  show ?case
    apply (simp only: fold_simps)
    apply (subst Cons.IH)
    apply (simp add: somar_instancia_chave Let_def split: option.splits)
    done
qed

lemma estoque_total_chave:
  "estoque_total s k =
     (let ps = filter (\<lambda>p. id_catalogo_produto p = k)
                 (concat (map (listar_produtos s) (AreaArmazem_listar_todas s)))
      in if ps = [] then None
         else Some \<lparr>total_nome = nome (hd ps), quantidade_total = sum_list (map quantidade ps)\<rparr>)"
  by (simp add: estoque_total_def fold_aninhado fold_somar_instancia Let_def)

text \<open>
  C8. For every state of the store and every catalog product id, \<open>estoque_total\<close> has
  an entry for the id exactly when some stock instance of some area references it, and
  the entry's total is the sum of the quantities of all instances referencing it, over
  all areas (its name is that of the first such instance). In particular, when the store
  has two areas and each holds 5 units of the product, the total is 10.
\<close>

theorem total_stock_by_product:
  "estoque_total s k =
     (let ps = filter (\<lambda>p. id_catalogo_produto p = k)
                 (concat (map (listar_produtos s) (AreaArmazem_listar_todas s)))
      in if ps = [] then None
         else Some \<lparr>total_nome = nome (hd ps), quantidade_total = sum_list (map quantidade ps)\<rparr>)
   \<and> (AreaArmazem_listar_todas s = [a1, a2]
        \<and> sum_list (map quantidade (filter (\<lambda>p. id_catalogo_produto p = k) (listar_produtos s a1))) = 5
        \<and> sum_list (map quantidade (filter (\<lambda>p. id_catalogo_produto p = k) (listar_produtos s a2))) = 5
      \<longrightarrow> map_option quantidade_total (estoque_total s k) = Some 10)"
proof (intro conjI impI)
  show "estoque_total s k =
     (let ps = filter (\<lambda>p. id_catalogo_produto p = k)
                 (concat (map (listar_produtos s) (AreaArmazem_listar_todas s)))
      in if ps = [] then None
         else Some \<lparr>total_nome = nome (hd ps), quantidade_total = sum_list (map quantidade ps)\<rparr>)"
    by (rule estoque_total_chave)
next
  assume h: "AreaArmazem_listar_todas s = [a1, a2]
        \<and> sum_list (map quantidade (filter (\<lambda>p. id_catalogo_produto p = k) (listar_produtos s a1))) = 5
        \<and> sum_list (map quantidade (filter (\<lambda>p. id_catalogo_produto p = k) (listar_produtos s a2))) = 5"
  let ?f1 = "filter (\<lambda>p. id_catalogo_produto p = k) (listar_produtos s a1)"
  let ?f2 = "filter (\<lambda>p. id_catalogo_produto p = k) (listar_produtos s a2)"
  from h have "?f1 \<noteq> []" by auto
  with h show "map_option quantidade_total (estoque_total s k) = Some 10"
    by (simp add: estoque_total_chave Let_def)
qed


theorem total_stock_by_product_witness:
  "map_option quantidade_total (estoque_total armazem_exemplo ''LEITE'') = Some 10"
proof -
  have "AreaArmazem_listar_todas armazem_exemplo = [area_a1, area_a2]
        \<and> sum_list (map quantidade (filter (\<lambda>p. id_catalogo_produto p = ''LEITE'')
              (listar_produtos armazem_exemplo area_a1))) = 5
        \<and> sum_list (map quantidade (filter (\<lambda>p. id_catalogo_produto p = ''LEITE'')
              (listar_produtos armazem_exemplo area_a2))) = 5"
    by (simp add: AreaArmazem_listar_todas_def listar_produtos_def armazem_exemplo_def
          area_a1_def area_a2_def inst_1_def inst_2_def inst_3_def)
  with total_stock_by_product [of armazem_exemplo "''LEITE''" area_a1 area_a2]
  show ?thesis by blast
qed

section \<open>Reports: expiry alerts\<close>

lemma visitar_produto_acc:
  "visitar_produto h a acc p = acc @ visitar_produto h a [] p"
  by (simp add: visitar_produto_def Let_def)

lemma fold_visitar_produto:
  "fold (\<lambda>p acc. visitar_produto h a acc p) ps acc
     = acc @ concat (map (visitar_produto h a []) ps)"
proof (induction ps arbitrary: acc)
  case Nil
  show ?case by simp
next
  case (Cons p ps)
  show ?case
    apply (simp only: fold_simps)
    apply (subst Cons.IH)
    apply (subst visitar_produto_acc)
    apply simp
    done
qed

lemma fold_areas_visitar:
  "fold (\<lambda>a acc. fold (\<lambda>p acc'. visitar_produto h a acc' p) (f a) acc) xs acc0
     = acc0 @ concat (map (\<lambda>a. concat (map (visitar_produto h a []) (f a))) xs)"
proof (induction xs arbitrary: acc0)
  case Nil
  show ?case by simp
next
  case (Cons a xs)
  show ?case
    apply (simp only: fold_simps)
    apply (subst Cons.IH)
    apply (subst fold_visitar_produto)
    apply simp
    done
qed

lemma alertas_coletados_concat:
  "alertas_coletados s h =
     concat (map (\<lambda>a. concat (map (visitar_produto h a []) (listar_produtos s a)))
               (AreaArmazem_listar_todas s))"
  by (simp add: alertas_coletados_def fold_areas_visitar)

lemma set_produtos_alerta_validade:
  "set (produtos_alerta_validade s h) =
     {e. \<exists>a \<in> set (AreaArmazem_listar_todas s). \<exists>p \<in> set (listar_produtos s a).
           status_do_produto h p \<noteq> [] \<and>
           e = \<lparr>alerta_area_id = id_area a, alerta_nome_area = nome_area a,
                 alerta_produto = p, status_validade = status_do_produto h p,
                 dias_para_vencer = data_validade p - h\<rparr>}"
  by (auto simp: produtos_alerta_validade_def alertas_coletados_concat
        visitar_produto_def Let_def split: if_splits)

lemma status_do_produto_casos:
  "(status_do_produto h p = ''VENCIDO'') = (data_validade p < h)"
  "(status_do_produto h p = ''PROXIMO_VENCIMENTO'')
     = (h \<le> data_validade p \<and> data_validade p \<le> h + dias_alerta_antecedencia)"
  "(status_do_produto h p = []) = (h + dias_alerta_antecedencia < data_validade p)"
  by (auto simp: status_do_produto_def limite_alerta_def dias_alerta_antecedencia_def)

text \<open>
  C4. For every stock instance \<open>p\<close> of every listed area and every current day
  \<open>hoje\<close>: the report holds the entry of \<open>p\<close> with status \<open>VENCIDO\<close> exactly when the
  expiry date of \<open>p\<close> is strictly before \<open>hoje\<close>; it holds the entry of \<open>p\<close> with status
  \<open>PROXIMO_VENCIMENTO\<close> exactly when the expiry date is not before \<open>hoje\<close> and at most
  \<open>hoje\<close> plus the warning window; it holds no entry for \<open>p\<close> exactly when the expiry
  date is later than that; and every entry for \<open>p\<close> carries the one status that applies
  and the number of days from \<open>hoje\<close> to the expiry date. The warning window of the
  source is 7 days; with \<open>hoje\<close> = 2024-01-10, expiry 2024-01-05 gives \<open>VENCIDO\<close>,
  2024-01-15 gives \<open>PROXIMO_VENCIMENTO\<close>, and 2024-02-01 gives no status, so no entry.
\<close>

theorem expiry_alert_classification:
  assumes "area \<in> set (AreaArmazem_listar_todas s)"
      and "p \<in> set (listar_produtos s area)"
  shows
    "((\<lparr>alerta_area_id = id_area area, alerta_nome_area = nome_area area, alerta_produto = p,
         status_validade = ''VENCIDO'', dias_para_vencer = data_validade p - hoje\<rparr>
        \<in> set (produtos_alerta_validade s hoje))
       = (data_validade p < hoje))
     \<and> ((\<lparr>alerta_area_id = id_area area, alerta_nome_area = nome_area area, alerta_produto = p,
         status_validade = ''PROXIMO_VENCIMENTO'', dias_para_vencer = data_validade p - hoje\<rparr>
        \<in> set (produtos_alerta_validade s hoje))
       = (hoje \<le> data_validade p \<and> data_validade p \<le> hoje + dias_alerta_antecedencia))
     \<and> ((\<forall>e \<in> set (produtos_alerta_validade s hoje). alerta_produto e \<noteq> p)
       = (hoje + dias_alerta_antecedencia < data_validade p))
     \<and> (\<forall>e \<in> set (produtos_alerta_validade s hoje). alerta_produto e = p \<longrightarrow>
          status_validade e = (if data_validade p < hoje then ''VENCIDO'' else ''PROXIMO_VENCIMENTO'')
          \<and> dias_para_vencer e = data_validade p - hoje)
     \<and> dias_alerta_antecedencia = 7
     \<and> status_do_produto (ymd2ord 2024 1 10) (p\<lparr>data_validade := ymd2ord 2024 1 5\<rparr>) = ''VENCIDO''
     \<and> status_do_produto (ymd2ord 2024 1 10) (p\<lparr>data_validade := ymd2ord 2024 1 15\<rparr>)
         = ''PROXIMO_VENCIMENTO''
     \<and> status_do_produto (ymd2ord 2024 1 10) (p\<lparr>data_validade := ymd2ord 2024 2 1\<rparr>) = []"
proof (intro conjI)
  let ?R = "produtos_alerta_validade s hoje"
  let ?E = "\<lambda>st. \<lparr>alerta_area_id = id_area area, alerta_nome_area = nome_area area,
                   alerta_produto = p, status_validade = st,
                   dias_para_vencer = data_validade p - hoje\<rparr>"
  show "(?E ''VENCIDO'' \<in> set ?R) = (data_validade p < hoje)"
  proof
    assume "?E ''VENCIDO'' \<in> set ?R"
    then have "status_do_produto hoje p = ''VENCIDO''"
      by (auto simp: set_produtos_alerta_validade)
    then show "data_validade p < hoje"
      by (simp add: status_do_produto_casos)
  next
    assume "data_validade p < hoje"
    then have "status_do_produto hoje p = ''VENCIDO''"
      by (simp add: status_do_produto_casos)
    with assms show "?E ''VENCIDO'' \<in> set ?R"
      by (auto simp: set_produtos_alerta_validade)
  qed
  show "(?E ''PROXIMO_VENCIMENTO'' \<in> set ?R)
          = (hoje \<le> data_validade p \<and> data_validade p \<le> hoje + dias_alerta_antecedencia)"
  proof
    assume "?E ''PROXIMO_VENCIMENTO'' \<in> set ?R"
    then have "status_do_produto hoje p = ''PROXIMO_VENCIMENTO''"
      by (auto simp: set_produtos_alerta_validade)
    then show "hoje \<le> data_validade p \<and> data_validade p \<le> hoje + dias_alerta_antecedencia"
      by (simp add: status_do_produto_casos)
  next
    assume "hoje \<le> data_validade p \<and> data_validade p \<le> hoje + dias_alerta_antecedencia"
    then have "status_do_produto hoje p = ''PROXIMO_VENCIMENTO''"
      by (simp add: status_do_produto_casos)
    with assms show "?E ''PROXIMO_VENCIMENTO'' \<in> set ?R"
      by (auto simp: set_produtos_alerta_validade)
  qed
  show "(\<forall>e \<in> set ?R. alerta_produto e \<noteq> p) = (hoje + dias_alerta_antecedencia < data_validade p)"
  proof
    assume none: "\<forall>e \<in> set ?R. alerta_produto e \<noteq> p"
    have "status_do_produto hoje p = []"
    proof (rule ccontr)
      assume "status_do_produto hoje p \<noteq> []"
      with assms have "?E (status_do_produto hoje p) \<in> set ?R"
        by (auto simp: set_produtos_alerta_validade)
      with none show False by auto
    qed
    then show "hoje + dias_alerta_antecedencia < data_validade p"
      by (simp add: status_do_produto_casos)
  next
    assume "hoje + dias_alerta_antecedencia < data_validade p"
    then have "status_do_produto hoje p = []"
      by (simp add: status_do_produto_casos)
    then show "\<forall>e \<in> set ?R. alerta_produto e \<noteq> p"
      by (auto simp: set_produtos_alerta_validade)
  qed
  show "\<forall>e \<in> set ?R. alerta_produto e = p \<longrightarrow>
          status_validade e = (if data_validade p < hoje then ''VENCIDO'' else ''PROXIMO_VENCIMENTO'')
          \<and> dias_para_vencer e = data_validade p - hoje"
    by (auto simp: set_produtos_alerta_validade status_do_produto_def)
  show "dias_alerta_antecedencia = 7"
    by (simp add: dias_alerta_antecedencia_def)
  have d10: "ymd2ord 2024 1 10 = 738895" and d05: "ymd2ord 2024 1 5 = 738890"
    and d15: "ymd2ord 2024 1 15 = 738900" and f01: "ymd2ord 2024 2 1 = 738917"
    by (simp_all add: ymd2ord_def days_before_year_def days_before_month_def is_leap_def)
  show "status_do_produto (ymd2ord 2024 1 10) (p\<lparr>data_validade := ymd2ord 2024 1 5\<rparr>) = ''VENCIDO''"
    unfolding d10 d05 by (simp add: status_do_produto_def)
  show "status_do_produto (ymd2ord 2024 1 10) (p\<lparr>data_validade := ymd2ord 2024 1 15\<rparr>)
         = ''PROXIMO_VENCIMENTO''"
    unfolding d10 d15
    by (simp add: status_do_produto_def limite_alerta_def dias_alerta_antecedencia_def)
  show "status_do_produto (ymd2ord 2024 1 10) (p\<lparr>data_validade := ymd2ord 2024 2 1\<rparr>) = []"
    unfolding d10 f01
    by (simp add: status_do_produto_def limite_alerta_def dias_alerta_antecedencia_def)
qed


theorem expiry_alert_classification_witness:
  "\<lparr>alerta_area_id = ''A1'', alerta_nome_area = ''Camara fria'', alerta_produto = inst_1,
     status_validade = ''VENCIDO'', dias_para_vencer = - 5\<rparr>
     \<in> set (produtos_alerta_validade armazem_exemplo 738895)
   \<and> inst_3 \<notin> alerta_produto ` set (produtos_alerta_validade armazem_exemplo 738895)"
proof -
  have a: "area_a1 \<in> set (AreaArmazem_listar_todas armazem_exemplo)"
    by (simp add: AreaArmazem_listar_todas_def armazem_exemplo_def)
  have b1: "inst_1 \<in> set (listar_produtos armazem_exemplo area_a1)"
    by (simp add: listar_produtos_def armazem_exemplo_def area_a1_def inst_1_def)
  have b3: "inst_3 \<in> set (listar_produtos armazem_exemplo area_a1)"
    by (simp add: listar_produtos_def armazem_exemplo_def area_a1_def inst_3_def)
  have d1: "data_validade inst_1 = 738890" and d3: "data_validade inst_3 = 738917"
    by (simp_all add: inst_1_def inst_3_def)
  have n: "id_area area_a1 = ''A1''" "nome_area area_a1 = ''Camara fria''"
    by (simp_all add: area_a1_def)
  from expiry_alert_classification [OF a b1, of 738895]
  have c1: "\<lparr>alerta_area_id = ''A1'', alerta_nome_area = ''Camara fria'', alerta_produto = inst_1,
     status_validade = ''VENCIDO'', dias_para_vencer = - 5\<rparr>
     \<in> set (produtos_alerta_validade armazem_exemplo 738895)"
    by (simp add: d1 n)
  from expiry_alert_classification [OF a b3, of 738895]
  have c3: "\<forall>e \<in> set (produtos_alerta_validade armazem_exemplo 738895). alerta_produto e \<noteq> inst_3"
    by (simp add: d3)
  from c3 have "inst_3 \<notin> alerta_produto ` set (produtos_alerta_validade armazem_exemplo 738895)"
    by (auto simp: image_iff)
  with c1 show ?thesis by simp
qed

lemma sorted_produtos_alerta_validade:
  "sorted (map chave_ordenacao (produtos_alerta_validade s hoje))"
  by (simp add: produtos_alerta_validade_def)

text \<open>
  C5. In the list the report returns, for any two positions \<open>i < j\<close>: if the entry at
  \<open>j\<close> is \<open>VENCIDO\<close> then so is the entry at \<open>i\<close> (every expired entry precedes every
  upcoming one), and if the two entries have the same status then the entry at \<open>i\<close> has
  at most as many days to expiry as the entry at \<open>j\<close>. Every entry is \<open>VENCIDO\<close> or
  \<open>PROXIMO_VENCIMENTO\<close>, and it is \<open>VENCIDO\<close> exactly when its number of days to expiry
  is negative.
\<close>

theorem expiry_alert_order:
  assumes "i < j" and "j < length (produtos_alerta_validade s hoje)"
  shows
    "(status_validade (produtos_alerta_validade s hoje ! j) = ''VENCIDO''
        \<longrightarrow> status_validade (produtos_alerta_validade s hoje ! i) = ''VENCIDO'')
     \<and> (status_validade (produtos_alerta_validade s hoje ! i)
          = status_validade (produtos_alerta_validade s hoje ! j)
        \<longrightarrow> dias_para_vencer (produtos_alerta_validade s hoje ! i)
              \<le> dias_para_vencer (produtos_alerta_validade s hoje ! j))
     \<and> (status_validade (produtos_alerta_validade s hoje ! i) = ''VENCIDO''
        \<or> status_validade (produtos_alerta_validade s hoje ! i) = ''PROXIMO_VENCIMENTO'')
     \<and> ((status_validade (produtos_alerta_validade s hoje ! i) = ''VENCIDO'')
          = (dias_para_vencer (produtos_alerta_validade s hoje ! i) < 0))"
proof -
  let ?R = "produtos_alerta_validade s hoje"
  from assms have i: "i < length ?R" by simp
  have "sorted (map chave_ordenacao ?R)"
    by (rule sorted_produtos_alerta_validade)
  with assms i have le: "chave_ordenacao (?R ! i) \<le> chave_ordenacao (?R ! j)"
    by (simp add: sorted_iff_nth_mono)
  from i have "?R ! i \<in> set ?R" by simp
  then have "\<exists>(a::AreaArmazem) p. status_do_produto hoje p \<noteq> [] \<and>
      ?R ! i = \<lparr>alerta_area_id = id_area a, alerta_nome_area = nome_area a,
                 alerta_produto = p, status_validade = status_do_produto hoje p,
                 dias_para_vencer = data_validade p - hoje\<rparr>"
    unfolding set_produtos_alerta_validade mem_Collect_eq by blast
  then obtain a :: AreaArmazem and p where e: "status_do_produto hoje p \<noteq> []"
      "?R ! i = \<lparr>alerta_area_id = id_area a, alerta_nome_area = nome_area a,
                 alerta_produto = p, status_validade = status_do_produto hoje p,
                 dias_para_vencer = data_validade p - hoje\<rparr>"
    by blast
  have st: "status_validade (?R ! i) = ''VENCIDO''
              \<or> status_validade (?R ! i) = ''PROXIMO_VENCIMENTO''"
    using e by (simp add: status_do_produto_def split: if_splits)
  have neg: "(status_validade (?R ! i) = ''VENCIDO'') = (dias_para_vencer (?R ! i) < 0)"
    using e by (simp add: status_do_produto_def split: if_splits)
  from le have o1: "status_validade (?R ! j) = ''VENCIDO''
                      \<longrightarrow> status_validade (?R ! i) = ''VENCIDO''"
    by (auto simp: chave_ordenacao_def less_eq_prod_def)
  from le have o2: "status_validade (?R ! i) = status_validade (?R ! j)
                      \<longrightarrow> dias_para_vencer (?R ! i) \<le> dias_para_vencer (?R ! j)"
    by (auto simp: chave_ordenacao_def less_eq_prod_def)
  from o1 o2 st neg show ?thesis by blast
qed

theorem expiry_alert_order_witness:
  "length (produtos_alerta_validade armazem_exemplo 738895) = 2
   \<and> status_validade (produtos_alerta_validade armazem_exemplo 738895 ! 0) = ''VENCIDO''
   \<and> dias_para_vencer (produtos_alerta_validade armazem_exemplo 738895 ! 0) < 0"
proof -
  have r: "map alerta_produto (produtos_alerta_validade armazem_exemplo 738895) = [inst_1, inst_2]"
    by (simp add: produtos_alerta_validade_def alertas_coletados_def visitar_produto_def
          status_do_produto_def limite_alerta_def dias_alerta_antecedencia_def
          chave_ordenacao_def AreaArmazem_listar_todas_def listar_produtos_def
          armazem_exemplo_def area_a1_def area_a2_def inst_1_def inst_2_def inst_3_def
          Let_def less_eq_prod_def)
  then have "length (map alerta_produto (produtos_alerta_validade armazem_exemplo 738895)) = 2"
    by simp
  then have len: "length (produtos_alerta_validade armazem_exemplo 738895) = 2" by simp
  have s1: "status_validade (produtos_alerta_validade armazem_exemplo 738895 ! 0) = ''VENCIDO''"
    by (simp add: produtos_alerta_validade_def alertas_coletados_def visitar_produto_def
          status_do_produto_def limite_alerta_def dias_alerta_antecedencia_def
          chave_ordenacao_def AreaArmazem_listar_todas_def listar_produtos_def
          armazem_exemplo_def area_a1_def area_a2_def inst_1_def inst_2_def inst_3_def
          Let_def less_eq_prod_def)
  from len have "(0::nat) < 1" "1 < length (produtos_alerta_validade armazem_exemplo 738895)"
    by simp_all
  from expiry_alert_order [OF this] s1 len show ?thesis
    by auto
qed

section \<open>Selling: rejected requests\<close>

lemma vender_guardas:
  assumes "AreaArmazem_buscar_por_id s ida = None
           \<or> id_instancia_venda f = Ausente \<or> id_instancia_venda f = Invalido
           \<or> quantidade_venda f = Ausente \<or> quantidade_venda f = Invalido
           \<or> destino_venda f = []
           \<or> (\<exists>q. quantidade_venda f = Valor q \<and> q \<le> 0)
           \<or> (\<exists>i. id_instancia_venda f = Valor i
                 \<and> ProdutoLacteo_buscar_instancia_por_id s i = None)
           \<or> (\<exists>i area. id_instancia_venda f = Valor i
                 \<and> AreaArmazem_buscar_por_id s ida = Some area
                 \<and> \<not> list_ex (\<lambda>p. id_instancia p = i) (listar_produtos s area))
           \<or> (\<exists>i q p. id_instancia_venda f = Valor i \<and> quantidade_venda f = Valor q
                 \<and> ProdutoLacteo_buscar_instancia_por_id s i = Some p \<and> quantidade p < q)"
  shows "snd (fst (vender_produto_da_area s usuario ida f)) \<noteq> Success
         \<and> snd (vender_produto_da_area s usuario ida f) = s"
  using assms
  by (auto simp: vender_produto_da_area_def split: option.splits campo.splits)

text \<open>
  C2. A sell request whose quantity exceeds the quantity of the instance it names is
  answered with a message that is not a success, and the store after it (stock and
  sales ledger) is the store before it. More generally, whenever a precondition of the
  sale is unmet (a quantity that is not positive, an instance id that names no instance,
  an instance id that is not among the ids of the area's instances, or less stock than
  requested), the answer is not a success and the store is unchanged.
\<close>

theorem sell_failure_no_side_effects:
  "(id_instancia_venda f = Valor i \<and> quantidade_venda f = Valor q
      \<and> ProdutoLacteo_buscar_instancia_por_id s i = Some p \<and> quantidade p < q
     \<longrightarrow> snd (fst (vender_produto_da_area s usuario ida f)) \<noteq> Success
         \<and> snd (vender_produto_da_area s usuario ida f) = s
         \<and> ProdutoLacteo_buscar_instancia_por_id (snd (vender_produto_da_area s usuario ida f)) i
             = Some p)
   \<and> ((\<exists>q'. quantidade_venda f = Valor q' \<and> q' \<le> 0)
        \<or> (\<exists>i'. id_instancia_venda f = Valor i'
              \<and> ProdutoLacteo_buscar_instancia_por_id s i' = None)
        \<or> (\<exists>i' area. id_instancia_venda f = Valor i'
              \<and> AreaArmazem_buscar_por_id s ida = Some area
              \<and> \<not> list_ex (\<lambda>p. id_instancia p = i') (listar_produtos s area))
        \<or> (\<exists>i' q' p'. id_instancia_venda f = Valor i' \<and> quantidade_venda f = Valor q'
              \<and> ProdutoLacteo_buscar_instancia_por_id s i' = Some p' \<and> quantidade p' < q')
     \<longrightarrow> snd (fst (vender_produto_da_area s usuario ida f)) \<noteq> Success
         \<and> produtos (snd (vender_produto_da_area s usuario ida f)) = produtos s
         \<and> vendas (snd (vender_produto_da_area s usuario ida f)) = vendas s
         \<and> snd (vender_produto_da_area s usuario ida f) = s)"
proof (intro conjI impI)
  assume h: "id_instancia_venda f = Valor i \<and> quantidade_venda f = Valor q
      \<and> ProdutoLacteo_buscar_instancia_por_id s i = Some p \<and> quantidade p < q"
  then have g: "snd (fst (vender_produto_da_area s usuario ida f)) \<noteq> Success
         \<and> snd (vender_produto_da_area s usuario ida f) = s"
    by (intro vender_guardas) blast
  from g show "snd (fst (vender_produto_da_area s usuario ida f)) \<noteq> Success" by simp
  from g show "snd (vender_produto_da_area s usuario ida f) = s" by simp
  from g h show "ProdutoLacteo_buscar_instancia_por_id
                   (snd (vender_produto_da_area s usuario ida f)) i = Some p"
    by simp
next
  assume h: "(\<exists>q'. quantidade_venda f = Valor q' \<and> q' \<le> 0)
        \<or> (\<exists>i'. id_instancia_venda f = Valor i'
              \<and> ProdutoLacteo_buscar_instancia_por_id s i' = None)
        \<or> (\<exists>i' area. id_instancia_venda f = Valor i'
              \<and> AreaArmazem_buscar_por_id s ida = Some area
              \<and> \<not> list_ex (\<lambda>p. id_instancia p = i') (listar_produtos s area))
        \<or> (\<exists>i' q' p'. id_instancia_venda f = Valor i' \<and> quantidade_venda f = Valor q'
              \<and> ProdutoLacteo_buscar_instancia_por_id s i' = Some p' \<and> quantidade p' < q')"
  then have g: "snd (fst (vender_produto_da_area s usuario ida f)) \<noteq> Success
         \<and> snd (vender_produto_da_area s usuario ida f) = s"
    by (intro vender_guardas) blast
  from g show "snd (fst (vender_produto_da_area s usuario ida f)) \<noteq> Success" by simp
  from g show "produtos (snd (vender_produto_da_area s usuario ida f)) = produtos s" by simp
  from g show "vendas (snd (vender_produto_da_area s usuario ida f)) = vendas s" by simp
  from g show "snd (vender_produto_da_area s usuario ida f) = s" by simp
qed

lemma exemplo_buscas:
  "AreaArmazem_buscar_por_id armazem_exemplo ''A1'' = Some area_a1"
  "AreaArmazem_buscar_por_id armazem_exemplo ''A2'' = Some area_a2"
  "ProdutoLacteo_buscar_instancia_por_id armazem_exemplo 1 = Some inst_1"
  "ProdutoLacteo_buscar_instancia_por_id armazem_exemplo 2 = Some inst_2"
  "ProdutoLacteo_buscar_instancia_por_id armazem_exemplo 3 = Some inst_3"
  "listar_produtos armazem_exemplo area_a1 = [inst_1, inst_3]"
  "listar_produtos armazem_exemplo area_a2 = [inst_2]"
  by (simp_all add: AreaArmazem_buscar_por_id_def ProdutoLacteo_buscar_instancia_por_id_def
        listar_produtos_def armazem_exemplo_def area_a1_def area_a2_def
        inst_1_def inst_2_def inst_3_def)

theorem sell_failure_no_side_effects_witness:
  "snd (fst (vender_produto_da_area armazem_exemplo ''ana'' ''A1''
          \<lparr>id_instancia_venda = Valor 1, quantidade_venda = Valor 6, destino_venda = ''loja''\<rparr>))
     \<noteq> Success
   \<and> snd (vender_produto_da_area armazem_exemplo ''ana'' ''A1''
          \<lparr>id_instancia_venda = Valor 1, quantidade_venda = Valor 6, destino_venda = ''loja''\<rparr>)
     = armazem_exemplo
   \<and> snd (vender_produto_da_area armazem_exemplo ''ana'' ''A1''
          \<lparr>id_instancia_venda = Valor 1, quantidade_venda = Valor 0, destino_venda = ''loja''\<rparr>)
     = armazem_exemplo"
proof -
  let ?f = "\<lparr>id_instancia_venda = Valor 1, quantidade_venda = Valor 6, destino_venda = ''loja''\<rparr>"
  let ?g = "\<lparr>id_instancia_venda = Valor 1, quantidade_venda = Valor 0, destino_venda = ''loja''\<rparr>"
  have q: "quantidade inst_1 < 6" by (simp add: inst_1_def)
  from sell_failure_no_side_effects [of ?f 1 6 armazem_exemplo inst_1 "''ana''" "''A1''"] q
  have a: "snd (fst (vender_produto_da_area armazem_exemplo ''ana'' ''A1'' ?f)) \<noteq> Success
           \<and> snd (vender_produto_da_area armazem_exemplo ''ana'' ''A1'' ?f) = armazem_exemplo"
    by (simp add: exemplo_buscas)
  have "\<exists>q'. quantidade_venda ?g = Valor q' \<and> q' \<le> 0" by simp
  with sell_failure_no_side_effects [of ?g 1 0 armazem_exemplo inst_1 "''ana''" "''A1''"]
  have b: "snd (vender_produto_da_area armazem_exemplo ''ana'' ''A1'' ?g) = armazem_exemplo"
    by blast
  from a b show ?thesis by blast
qed

lemma nao_pertence_se_outra_area:
  assumes "distinct (map id_instancia (produtos s))"
      and "ProdutoLacteo_buscar_instancia_por_id s i = Some p"
      and "area_ref p \<noteq> id_area area"
  shows "\<not> list_ex (\<lambda>p'. id_instancia p' = i) (listar_produtos s area)"
proof
  assume "list_ex (\<lambda>p'. id_instancia p' = i) (listar_produtos s area)"
  then obtain p' where p': "p' \<in> set (produtos s)" "area_ref p' = id_area area" "id_instancia p' = i"
    by (auto simp: list_ex_iff listar_produtos_def)
  from assms(2) have p: "p \<in> set (produtos s)" "id_instancia p = i"
    by (auto simp: ProdutoLacteo_buscar_instancia_por_id_def find_Some_iff)
  from assms(1) p p' have "p = p'"
    by (metis distinct_map inj_onD)
  with p' assms(3) show False by simp
qed

text \<open>
  C7, as amended. When the instance id of a request names an existing instance but is
  not among the ids of the instances of the area named in the request path (with unique
  instance ids: the instance belongs to another area):
  \<^item> the edit handler (on \<open>GET\<close> and on \<open>POST\<close>, whatever the form holds) and the delete
    handler answer with the message that the instance does not belong to the area, and
    leave the store unchanged;
  \<^item> the sell handler does so when the request passes the checks that come first in
    the source: the three fields are filled in, the instance id and the quantity are
    numbers, and the quantity is positive;
  \<^item> for every sell request naming such an instance id the answer is not a success
    and the store is unchanged.
  The message differs from the one for an instance that does not exist.
\<close>

theorem wrong_area_rejected:
  assumes "AreaArmazem_buscar_por_id s ida = Some area"
      and "ProdutoLacteo_buscar_instancia_por_id s i = Some p"
      and "\<not> list_ex (\<lambda>p'. id_instancia p' = i) (listar_produtos s area)"
  shows "editar_produto_em_area s ida i m fe = (Some (NaoPertenceAArea, Danger), s)
     \<and> excluir_produto_de_area s ida i = ((NaoPertenceAArea, Danger), s)
     \<and> (id_instancia_venda f = Valor i \<and> quantidade_venda f = Valor q \<and> 0 < q
          \<and> destino_venda f \<noteq> []
        \<longrightarrow> vender_produto_da_area s usuario ida f = ((NaoPertenceAArea, Danger), s))
     \<and> (id_instancia_venda f = Valor i
        \<longrightarrow> snd (fst (vender_produto_da_area s usuario ida f)) \<noteq> Success
            \<and> snd (vender_produto_da_area s usuario ida f) = s)
     \<and> NaoPertenceAArea \<noteq> InstanciaNaoEncontrada"
proof (intro conjI impI)
  show "editar_produto_em_area s ida i m fe = (Some (NaoPertenceAArea, Danger), s)"
    using assms by (simp add: editar_produto_em_area_def)
  show "excluir_produto_de_area s ida i = ((NaoPertenceAArea, Danger), s)"
    using assms by (simp add: excluir_produto_de_area_def)
  show "vender_produto_da_area s usuario ida f = ((NaoPertenceAArea, Danger), s)"
    if "id_instancia_venda f = Valor i \<and> quantidade_venda f = Valor q \<and> 0 < q
          \<and> destino_venda f \<noteq> []"
    using assms that by (simp add: vender_produto_da_area_def)
  show "snd (fst (vender_produto_da_area s usuario ida f)) \<noteq> Success"
    if "id_instancia_venda f = Valor i"
    using vender_guardas [of s ida f usuario] assms that by blast
  show "snd (vender_produto_da_area s usuario ida f) = s"
    if "id_instancia_venda f = Valor i"
    using vender_guardas [of s ida f usuario] assms that by blast
  show "NaoPertenceAArea \<noteq> InstanciaNaoEncontrada" by simp
qed

theorem wrong_area_rejected_witness:
  "editar_produto_em_area armazem_exemplo ''A1'' 2 POST
       \<lparr>editar_quantidade = Valor 9, editar_data_validade = Valor 738900, editar_lote = ''L9''\<rparr>
     = (Some (NaoPertenceAArea, Danger), armazem_exemplo)
   \<and> excluir_produto_de_area armazem_exemplo ''A1'' 2 = ((NaoPertenceAArea, Danger), armazem_exemplo)
   \<and> vender_produto_da_area armazem_exemplo ''ana'' ''A1''
       \<lparr>id_instancia_venda = Valor 2, quantidade_venda = Valor 1, destino_venda = ''loja''\<rparr>
     = ((NaoPertenceAArea, Danger), armazem_exemplo)"
proof -
  have a: "AreaArmazem_buscar_por_id armazem_exemplo ''A1'' = Some area_a1"
    and b: "ProdutoLacteo_buscar_instancia_por_id armazem_exemplo 2 = Some inst_2"
    by (simp_all add: exemplo_buscas)
  have c: "\<not> list_ex (\<lambda>p'. id_instancia p' = 2) (listar_produtos armazem_exemplo area_a1)"
    by (simp add: exemplo_buscas inst_1_def inst_3_def)
  from wrong_area_rejected [OF a b c,
      of POST "\<lparr>editar_quantidade = Valor 9, editar_data_validade = Valor 738900, editar_lote = ''L9''\<rparr>"
         "\<lparr>id_instancia_venda = Valor 2, quantidade_venda = Valor 1, destino_venda = ''loja''\<rparr>"
         1 "''ana''"]
  show ?thesis by simp
qed

theorem wrong_area_counterexample:
  "AreaArmazem_buscar_por_id armazem_exemplo ''A1'' = Some area_a1
   \<and> ProdutoLacteo_buscar_instancia_por_id armazem_exemplo 2 = Some inst_2
   \<and> area_ref inst_2 \<noteq> id_area area_a1
   \<and> \<not> list_ex (\<lambda>p'. id_instancia p' = 2) (listar_produtos armazem_exemplo area_a1)
   \<and> vender_produto_da_area armazem_exemplo ''ana'' ''A1''
       \<lparr>id_instancia_venda = Valor 2, quantidade_venda = Valor 0, destino_venda = ''loja''\<rparr>
     = ((QuantidadeVendaDeveSerPositiva, Warning), armazem_exemplo)
   \<and> QuantidadeVendaDeveSerPositiva \<noteq> NaoPertenceAArea"
proof -
  have a: "area_ref inst_2 \<noteq> id_area area_a1"
    by (simp add: inst_2_def area_a1_def)
  have b: "\<not> list_ex (\<lambda>p'. id_instancia p' = 2) (listar_produtos armazem_exemplo area_a1)"
    by (simp add: exemplo_buscas inst_1_def inst_3_def)
  have c: "vender_produto_da_area armazem_exemplo ''ana'' ''A1''
       \<lparr>id_instancia_venda = Valor 2, quantidade_venda = Valor 0, destino_venda = ''loja''\<rparr>
     = ((QuantidadeVendaDeveSerPositiva, Warning), armazem_exemplo)"
    by (simp add: exemplo_buscas vender_produto_da_area_def)
  from a b c show ?thesis by (simp add: exemplo_buscas)
qed

section \<open>Selling: accepted requests\<close>

lemma baixar_estoque_primeiro:
  assumes "find (\<lambda>x. id_instancia x = i) ps = Some p"
      and "area_ref p = a" and "0 < q" and "q \<le> quantidade p"
  shows "\<exists>k < length ps. ps ! k = p
           \<and> baixar_estoque a i q ps = Some (ps[k := p\<lparr>quantidade := quantidade p - q\<rparr>])
           \<and> find (\<lambda>x. id_instancia x = i) (ps[k := p\<lparr>quantidade := quantidade p - q\<rparr>])
               = Some (p\<lparr>quantidade := quantidade p - q\<rparr>)
           \<and> (\<forall>j. j \<noteq> i \<longrightarrow>
                find (\<lambda>x. id_instancia x = j) (ps[k := p\<lparr>quantidade := quantidade p - q\<rparr>])
                  = find (\<lambda>x. id_instancia x = j) ps)"
  using assms
proof (induction ps)
  case Nil
  then show ?case by simp
next
  case (Cons x xs)
  show ?case
  proof (cases "id_instancia x = i")
    case True
    with Cons.prems have xp: "x = p" by simp
    have "0 < length (x # xs) \<and> (x # xs) ! 0 = p
           \<and> baixar_estoque a i q (x # xs)
               = Some ((x # xs)[0 := p\<lparr>quantidade := quantidade p - q\<rparr>])
           \<and> find (\<lambda>x. id_instancia x = i) ((x # xs)[0 := p\<lparr>quantidade := quantidade p - q\<rparr>])
               = Some (p\<lparr>quantidade := quantidade p - q\<rparr>)
           \<and> (\<forall>j. j \<noteq> i \<longrightarrow>
                find (\<lambda>x. id_instancia x = j) ((x # xs)[0 := p\<lparr>quantidade := quantidade p - q\<rparr>])
                  = find (\<lambda>x. id_instancia x = j) (x # xs))"
      using True xp Cons.prems by simp
    then show ?thesis by blast
  next
    case False
    with Cons.prems have f: "find (\<lambda>x. id_instancia x = i) xs = Some p" by simp
    from Cons.IH [OF f Cons.prems(2) Cons.prems(3) Cons.prems(4)]
    obtain k where k: "k < length xs" "xs ! k = p"
        "baixar_estoque a i q xs = Some (xs[k := p\<lparr>quantidade := quantidade p - q\<rparr>])"
        "find (\<lambda>x. id_instancia x = i) (xs[k := p\<lparr>quantidade := quantidade p - q\<rparr>])
               = Some (p\<lparr>quantidade := quantidade p - q\<rparr>)"
        "\<forall>j. j \<noteq> i \<longrightarrow>
                find (\<lambda>x. id_instancia x = j) (xs[k := p\<lparr>quantidade := quantidade p - q\<rparr>])
                  = find (\<lambda>x. id_instancia x = j) xs"
      by blast
    have "Suc k < length (x # xs) \<and> (x # xs) ! Suc k = p
           \<and> baixar_estoque a i q (x # xs)
               = Some ((x # xs)[Suc k := p\<lparr>quantidade := quantidade p - q\<rparr>])
           \<and> find (\<lambda>x. id_instancia x = i) ((x # xs)[Suc k := p\<lparr>quantidade := quantidade p - q\<rparr>])
               = Some (p\<lparr>quantidade := quantidade p - q\<rparr>)
           \<and> (\<forall>j. j \<noteq> i \<longrightarrow>
                find (\<lambda>x. id_instancia x = j) ((x # xs)[Suc k := p\<lparr>quantidade := quantidade p - q\<rparr>])
                  = find (\<lambda>x. id_instancia x = j) (x # xs))"
      using False k by simp
    then show ?thesis by blast
  qed
qed

lemma list_ex_se_encontrado:
  assumes "find (\<lambda>x. id_instancia x = i) ps = Some p" and "area_ref p = a"
  shows "list_ex (\<lambda>x. id_instancia x = i) (filter (\<lambda>x. area_ref x = a) ps)"
proof -
  from assms(1) have "p \<in> set ps" "id_instancia p = i"
    by (auto simp: find_Some_iff)
  with assms(2) show ?thesis
    by (auto simp: list_ex_iff)
qed

text \<open>
  C1, as amended. For every sell request that gives a destination, an instance id \<open>i\<close>
  and a quantity \<open>q\<close> with \<open>0 < q\<close>, where the area named in the request exists, the
  instance \<open>p\<close> with id \<open>i\<close> exists and belongs to that area, and \<open>q\<close> is at most the
  quantity of \<open>p\<close>: the handler answers with the success message; exactly one row of the
  stock table changes, the row of \<open>p\<close>, whose quantity becomes the quantity of \<open>p\<close> minus
  \<open>q\<close>, so that looking up \<open>i\<close> afterwards gives \<open>p\<close> with that quantity and looking up
  any other id gives what it gave before; and exactly one \<open>Venda\<close> is appended to the
  ledger, with quantity sold \<open>q\<close> and with the catalog id, name, lot and expiry date of
  \<open>p\<close> as they were when the sale was made. Areas and catalog are unchanged.
\<close>

theorem sell_decrements_and_records:
  assumes "AreaArmazem_buscar_por_id s ida = Some area"
      and "id_instancia_venda f = Valor i" and "quantidade_venda f = Valor q"
      and "destino_venda f \<noteq> []"
      and "0 < q"
      and "ProdutoLacteo_buscar_instancia_por_id s i = Some p"
      and "area_ref p = id_area area"
      and "q \<le> quantidade p"
  shows "fst (vender_produto_da_area s usuario ida f) = (VendaRegistrada, Success)
     \<and> (\<exists>k < length (produtos s). produtos s ! k = p
           \<and> produtos (snd (vender_produto_da_area s usuario ida f))
               = (produtos s)[k := p\<lparr>quantidade := quantidade p - q\<rparr>])
     \<and> ProdutoLacteo_buscar_instancia_por_id (snd (vender_produto_da_area s usuario ida f)) i
         = Some (p\<lparr>quantidade := quantidade p - q\<rparr>)
     \<and> (\<forall>j. j \<noteq> i \<longrightarrow>
           ProdutoLacteo_buscar_instancia_por_id (snd (vender_produto_da_area s usuario ida f)) j
             = ProdutoLacteo_buscar_instancia_por_id s j)
     \<and> vendas (snd (vender_produto_da_area s usuario ida f))
         = vendas s @
           [\<lparr>venda_id_catalogo_produto = id_catalogo_produto p, venda_nome = nome p,
              venda_lote = lote p, data_validade_produto = data_validade p,
              quantidade_vendida = q, destino = strip (destino_venda f),
              area_origem_id = ida, usuario_responsavel = usuario\<rparr>]
     \<and> areas (snd (vender_produto_da_area s usuario ida f)) = areas s
     \<and> catalogo (snd (vender_produto_da_area s usuario ida f)) = catalogo s"
proof -
  let ?p' = "p\<lparr>quantidade := quantidade p - q\<rparr>"
  let ?v = "\<lparr>venda_id_catalogo_produto = id_catalogo_produto p, venda_nome = nome p,
              venda_lote = lote p, data_validade_produto = data_validade p,
              quantidade_vendida = q, destino = strip (destino_venda f),
              area_origem_id = ida, usuario_responsavel = usuario\<rparr>"
  from assms(6) have fnd: "find (\<lambda>x. id_instancia x = i) (produtos s) = Some p"
    by (simp add: ProdutoLacteo_buscar_instancia_por_id_def)
  then have idp: "id_instancia p = i"
    by (auto simp: find_Some_iff)
  from baixar_estoque_primeiro [OF fnd assms(7) assms(5) assms(8)]
  obtain k where k: "k < length (produtos s)" "produtos s ! k = p"
      "baixar_estoque (id_area area) i q (produtos s) = Some ((produtos s)[k := ?p'])"
      "find (\<lambda>x. id_instancia x = i) ((produtos s)[k := ?p']) = Some ?p'"
      "\<forall>j. j \<noteq> i \<longrightarrow> find (\<lambda>x. id_instancia x = j) ((produtos s)[k := ?p'])
                          = find (\<lambda>x. id_instancia x = j) (produtos s)"
    by blast
  have ex: "list_ex (\<lambda>x. id_instancia x = i) (listar_produtos s area)"
    unfolding listar_produtos_def by (rule list_ex_se_encontrado [OF fnd assms(7)])
  have rem: "remover_produto s area i q = (True, s\<lparr>produtos := (produtos s)[k := ?p']\<rparr>)"
    by (simp add: remover_produto_def k(3))
  have r: "vender_produto_da_area s usuario ida f
             = ((VendaRegistrada, Success),
                Venda_registrar (s\<lparr>produtos := (produtos s)[k := ?p']\<rparr>) ?v)"
    using assms ex rem idp by (simp add: vender_produto_da_area_def)
  show ?thesis
    using k by (simp add: r Venda_registrar_def ProdutoLacteo_buscar_instancia_por_id_def)
       blast
qed

theorem sell_decrements_and_records_witness:
  "fst (vender_produto_da_area armazem_exemplo ''ana'' ''A1''
          \<lparr>id_instancia_venda = Valor 1, quantidade_venda = Valor 2, destino_venda = '' loja ''\<rparr>)
     = (VendaRegistrada, Success)
   \<and> ProdutoLacteo_buscar_instancia_por_id
        (snd (vender_produto_da_area armazem_exemplo ''ana'' ''A1''
          \<lparr>id_instancia_venda = Valor 1, quantidade_venda = Valor 2, destino_venda = '' loja ''\<rparr>)) 1
     = Some (inst_1\<lparr>quantidade := 3\<rparr>)
   \<and> vendas (snd (vender_produto_da_area armazem_exemplo ''ana'' ''A1''
          \<lparr>id_instancia_venda = Valor 1, quantidade_venda = Valor 2, destino_venda = '' loja ''\<rparr>))
     = [\<lparr>venda_id_catalogo_produto = ''LEITE'', venda_nome = ''Leite'', venda_lote = ''L1'',
         data_validade_produto = 738890, quantidade_vendida = 2, destino = ''loja'',
         area_origem_id = ''A1'', usuario_responsavel = ''ana''\<rparr>]"
proof -
  let ?f = "\<lparr>id_instancia_venda = Valor 1, quantidade_venda = Valor 2, destino_venda = '' loja ''\<rparr>"
  have a: "AreaArmazem_buscar_por_id armazem_exemplo ''A1'' = Some area_a1"
    and b: "ProdutoLacteo_buscar_instancia_por_id armazem_exemplo 1 = Some inst_1"
    by (simp_all add: exemplo_buscas)
  have c: "area_ref inst_1 = id_area area_a1" and d: "(2::int) \<le> quantidade inst_1"
    by (simp_all add: inst_1_def area_a1_def)
  have e: "strip '' loja '' = ''loja''"
    by (simp add: strip_def isspace_def)
  have v: "vendas armazem_exemplo = []" and q: "quantidade inst_1 - 2 = 3"
    and n: "id_catalogo_produto inst_1 = ''LEITE''" "nome inst_1 = ''Leite''"
           "lote inst_1 = ''L1''" "data_validade inst_1 = 738890"
    by (simp_all add: armazem_exemplo_def inst_1_def)
  from sell_decrements_and_records [OF a _ _ _ _ b c d, of ?f "''ana''"]
  show ?thesis by (simp add: e v q n)
qed

theorem sell_without_destination_counterexample:
  "AreaArmazem_buscar_por_id armazem_exemplo ''A1'' = Some area_a1
   \<and> ProdutoLacteo_buscar_instancia_por_id armazem_exemplo 1 = Some inst_1
   \<and> area_ref inst_1 = id_area area_a1
   \<and> (0::int) < 2 \<and> 2 \<le> quantidade inst_1
   \<and> vender_produto_da_area armazem_exemplo ''ana'' ''A1''
        \<lparr>id_instancia_venda = Valor 1, quantidade_venda = Valor 2, destino_venda = []\<rparr>
      = ((InformacoesInsuficientes, Warning), armazem_exemplo)
   \<and> vendas armazem_exemplo = []
   \<and> quantidade inst_1 = 5"
proof -
  have c: "area_ref inst_1 = id_area area_a1" and d: "quantidade inst_1 = 5"
    by (simp_all add: inst_1_def area_a1_def)
  have v: "vendas armazem_exemplo = []" by (simp add: armazem_exemplo_def)
  have r: "vender_produto_da_area armazem_exemplo ''ana'' ''A1''
        \<lparr>id_instancia_venda = Valor 1, quantidade_venda = Valor 2, destino_venda = []\<rparr>
      = ((InformacoesInsuficientes, Warning), armazem_exemplo)"
    by (simp add: exemplo_buscas vender_produto_da_area_def)
  from c d v r show ?thesis by (simp add: exemplo_buscas)
qed

section \<open>Deleting an area\<close>

text \<open>
  C6. For every area that still owns at least one stock instance, \<open>excluir_area\<close>
  answers with the in-use message, as a failure, and the store after it is the store
  before it: the area is still found under its id and its instances are the same.
\<close>

theorem delete_area_in_use:
  assumes "AreaArmazem_buscar_por_id s ida = Some area"
      and "listar_produtos s area \<noteq> []"
  shows "excluir_area s ida = ((AreaEmUso, Danger), s)
     \<and> AreaArmazem_buscar_por_id (snd (excluir_area s ida)) ida = Some area
     \<and> areas (snd (excluir_area s ida)) = areas s
     \<and> listar_produtos (snd (excluir_area s ida)) area = listar_produtos s area
     \<and> produtos (snd (excluir_area s ida)) = produtos s"
proof -
  have "excluir_area s ida = ((AreaEmUso, Danger), s)"
    using assms by (simp add: excluir_area_def deletar_def)
  with assms show ?thesis by simp
qed

theorem delete_area_in_use_witness:
  "excluir_area armazem_exemplo ''A1'' = ((AreaEmUso, Danger), armazem_exemplo)"
proof -
  have a: "AreaArmazem_buscar_por_id armazem_exemplo ''A1'' = Some area_a1"
    by (simp add: exemplo_buscas)
  have b: "listar_produtos armazem_exemplo area_a1 \<noteq> []"
    by (simp add: exemplo_buscas)
  from delete_area_in_use [OF a b] show ?thesis by simp
qed

section \<open>Adding stock\<close>

lemma somar_no_lote_ausente:
  "filter (\<lambda>p. area_ref p = a \<and> id_catalogo_produto p = c \<and> lote p = l) ps = []
   \<Longrightarrow> somar_no_lote a c l q ps = None"
  by (induction ps) (auto split: if_splits)

lemma somar_no_lote_presente:
  "filter (\<lambda>p. area_ref p = a \<and> id_catalogo_produto p = c \<and> lote p = l) ps = r # rs
   \<Longrightarrow> \<exists>ps'. somar_no_lote a c l q ps = Some ps'
         \<and> filter (\<lambda>p. area_ref p = a \<and> id_catalogo_produto p = c \<and> lote p = l) ps'
             = r\<lparr>quantidade := quantidade r + q\<rparr> # rs
         \<and> filter (\<lambda>p. \<not> (area_ref p = a \<and> id_catalogo_produto p = c \<and> lote p = l)) ps'
             = filter (\<lambda>p. \<not> (area_ref p = a \<and> id_catalogo_produto p = c \<and> lote p = l)) ps
         \<and> length ps' = length ps"
proof (induction ps)
  case Nil
  then show ?case by simp
next
  case (Cons x xs)
  show ?case
  proof (cases "area_ref x = a \<and> id_catalogo_produto x = c \<and> lote x = l")
    case True
    with Cons.prems have "x = r"
      "filter (\<lambda>p. area_ref p = a \<and> id_catalogo_produto p = c \<and> lote p = l) xs = rs"
      by simp_all
    with True show ?thesis by simp
  next
    case False
    with Cons.prems
    have "filter (\<lambda>p. area_ref p = a \<and> id_catalogo_produto p = c \<and> lote p = l) xs = r # rs"
      by auto
    from Cons.IH [OF this] obtain ps' where
      "somar_no_lote a c l q xs = Some ps'"
      "filter (\<lambda>p. area_ref p = a \<and> id_catalogo_produto p = c \<and> lote p = l) ps'
             = r\<lparr>quantidade := quantidade r + q\<rparr> # rs"
      "filter (\<lambda>p. \<not> (area_ref p = a \<and> id_catalogo_produto p = c \<and> lote p = l)) ps'
             = filter (\<lambda>p. \<not> (area_ref p = a \<and> id_catalogo_produto p = c \<and> lote p = l)) xs"
      "length ps' = length xs"
      by blast
    with False show ?thesis by auto
  qed
qed

lemma novo_id_maior: "p \<in> set ps \<Longrightarrow> id_instancia p < novo_id ps"
  unfolding novo_id_def by (induction ps) auto

lemma novo_id_fresco: "novo_id ps \<notin> id_instancia ` set ps"
  using novo_id_maior by fastforce

lemma instancias_do_lote_filter:
  "instancias_do_lote s area c l
     = filter (\<lambda>p. area_ref p = id_area area \<and> id_catalogo_produto p = c \<and> lote p = l)
         (produtos s)"
  by (simp add: instancias_do_lote_def listar_produtos_def)

lemma adicionar_produto_novo:
  assumes "instancias_do_lote s area (id_catalogo_produto novo) (lote novo) = []"
  shows "adicionar_produto s area novo =
     s\<lparr>produtos := produtos s @
         [\<lparr>id_catalogo_produto = id_catalogo_produto novo, nome = nome novo,
           quantidade = quantidade novo, data_validade = data_validade novo,
           lote = lote novo, id_instancia = novo_id (produtos s),
           area_ref = id_area area\<rparr>]\<rparr>"
  using assms
  by (simp add: adicionar_produto_def instancias_do_lote_filter somar_no_lote_ausente)

lemma adicionar_produto_existente:
  assumes "instancias_do_lote s area (id_catalogo_produto novo) (lote novo) = r # rs"
  shows "\<exists>ps'. adicionar_produto s area novo = s\<lparr>produtos := ps'\<rparr>
     \<and> instancias_do_lote (s\<lparr>produtos := ps'\<rparr>) area (id_catalogo_produto novo) (lote novo)
         = r\<lparr>quantidade := quantidade r + quantidade novo\<rparr> # rs
     \<and> filter (\<lambda>p. \<not> (area_ref p = id_area area
                        \<and> id_catalogo_produto p = id_catalogo_produto novo
                        \<and> lote p = lote novo)) ps'
         = filter (\<lambda>p. \<not> (area_ref p = id_area area
                        \<and> id_catalogo_produto p = id_catalogo_produto novo
                        \<and> lote p = lote novo)) (produtos s)
     \<and> length ps' = length (produtos s)"
proof -
  from assms have
    "filter (\<lambda>p. area_ref p = id_area area \<and> id_catalogo_produto p = id_catalogo_produto novo
                  \<and> lote p = lote novo) (produtos s) = r # rs"
    by (simp add: instancias_do_lote_filter)
  from somar_no_lote_presente [OF this, of "quantidade novo"] obtain ps' where
    "somar_no_lote (id_area area) (id_catalogo_produto novo) (lote novo) (quantidade novo)
        (produtos s) = Some ps'"
    "filter (\<lambda>p. area_ref p = id_area area \<and> id_catalogo_produto p = id_catalogo_produto novo
                  \<and> lote p = lote novo) ps'
       = r\<lparr>quantidade := quantidade r + quantidade novo\<rparr> # rs"
    "filter (\<lambda>p. \<not> (area_ref p = id_area area
                        \<and> id_catalogo_produto p = id_catalogo_produto novo
                        \<and> lote p = lote novo)) ps'
         = filter (\<lambda>p. \<not> (area_ref p = id_area area
                        \<and> id_catalogo_produto p = id_catalogo_produto novo
                        \<and> lote p = lote novo)) (produtos s)"
    "length ps' = length (produtos s)"
    by blast
  then show ?thesis
    by (intro exI [of _ ps']) (simp add: adicionar_produto_def instancias_do_lote_filter)
qed

lemma adicionar_produto_areas_catalogo:
  "areas (adicionar_produto s area novo) = areas s
   \<and> catalogo (adicionar_produto s area novo) = catalogo s
   \<and> vendas (adicionar_produto s area novo) = vendas s"
  by (simp add: adicionar_produto_def split: option.splits)

lemma adicionar_produto_na_area_aceito:
  assumes "AreaArmazem_buscar_por_id s ida = Some area"
      and "ProdutoCatalogo_buscar_por_id s c = Some pc"
      and "c \<noteq> []" and "l \<noteq> []" and "0 < q"
  shows "adicionar_produto_na_area s ida
           \<lparr>form_id_produto_catalogo = c, form_quantidade = Valor q,
            form_data_validade = Valor d, form_lote = l\<rparr>
         = ((ProdutoAdicionado, Success),
            adicionar_produto s area
              \<lparr>id_catalogo_produto = c, nome = nome_catalogo pc, quantidade = q,
                data_validade = d, lote = upper (strip l)\<rparr>)"
  using assms by (simp add: adicionar_produto_na_area_def)

text \<open>
  C3. Let two add requests name the same existing area, the same existing catalog product
  and the same lot code, with quantities \<open>q1 > 0\<close> and \<open>q2 > 0\<close> and expiry dates that
  parse. Both are accepted, and after the second:
  \<^item> if the area held no instance of that product and lot before the first request,
    it now holds exactly one, with quantity \<open>q1 + q2\<close> and an instance id that no
    instance had before; the first request appended that one row and the second request
    added no row;
  \<^item> if the area already held such an instance, no row was added and the quantity of
    that instance grew by \<open>q1 + q2\<close>;
  \<^item> in both cases the instances of other products, lots and areas are as before.
  The lot code is the submitted one, stripped and upper-cased.
\<close>

theorem add_twice_merges:
  assumes "AreaArmazem_buscar_por_id s ida = Some area"
      and "ProdutoCatalogo_buscar_por_id s c = Some pc"
      and "c \<noteq> []" and "l \<noteq> []" and "0 < q1" and "0 < q2"
      and "r1 = adicionar_produto_na_area s ida
                  \<lparr>form_id_produto_catalogo = c, form_quantidade = Valor q1,
                   form_data_validade = Valor d1, form_lote = l\<rparr>"
      and "r2 = adicionar_produto_na_area (snd r1) ida
                  \<lparr>form_id_produto_catalogo = c, form_quantidade = Valor q2,
                   form_data_validade = Valor d2, form_lote = l\<rparr>"
  shows "fst r1 = (ProdutoAdicionado, Success) \<and> fst r2 = (ProdutoAdicionado, Success)
     \<and> (instancias_do_lote s area c (upper (strip l)) = [] \<longrightarrow>
          produtos (snd r1) = produtos s @
             [\<lparr>id_catalogo_produto = c, nome = nome_catalogo pc, quantidade = q1,
               data_validade = d1, lote = upper (strip l),
               id_instancia = novo_id (produtos s), area_ref = id_area area\<rparr>]
          \<and> novo_id (produtos s) \<notin> id_instancia ` set (produtos s)
          \<and> instancias_do_lote (snd r2) area c (upper (strip l))
              = [\<lparr>id_catalogo_produto = c, nome = nome_catalogo pc, quantidade = q1 + q2,
                  data_validade = d1, lote = upper (strip l),
                  id_instancia = novo_id (produtos s), area_ref = id_area area\<rparr>]
          \<and> length (produtos (snd r2)) = length (produtos s) + 1)
     \<and> (\<forall>r rs. instancias_do_lote s area c (upper (strip l)) = r # rs \<longrightarrow>
          instancias_do_lote (snd r2) area c (upper (strip l))
              = r\<lparr>quantidade := quantidade r + q1 + q2\<rparr> # rs
          \<and> length (produtos (snd r2)) = length (produtos s))
     \<and> filter (\<lambda>p. \<not> (area_ref p = id_area area \<and> id_catalogo_produto p = c
                        \<and> lote p = upper (strip l))) (produtos (snd r2))
         = filter (\<lambda>p. \<not> (area_ref p = id_area area \<and> id_catalogo_produto p = c
                        \<and> lote p = upper (strip l))) (produtos s)"
proof -
  let ?L = "upper (strip l)"
  let ?n1 = "\<lparr>id_catalogo_produto = c, nome = nome_catalogo pc, quantidade = q1,
               data_validade = d1, lote = ?L\<rparr>"
  let ?n2 = "\<lparr>id_catalogo_produto = c, nome = nome_catalogo pc, quantidade = q2,
               data_validade = d2, lote = ?L\<rparr>"
  let ?K = "\<lambda>p. area_ref p = id_area area \<and> id_catalogo_produto p = c \<and> lote p = ?L"
  let ?s1 = "adicionar_produto s area ?n1"
  have e1: "r1 = ((ProdutoAdicionado, Success), ?s1)"
    unfolding assms(7)
    by (rule adicionar_produto_na_area_aceito [OF assms(1) assms(2) assms(3) assms(4) assms(5)])
  have a1: "AreaArmazem_buscar_por_id ?s1 ida = Some area"
    using assms(1) adicionar_produto_areas_catalogo [of s area ?n1]
    by (simp add: AreaArmazem_buscar_por_id_def)
  have c1: "ProdutoCatalogo_buscar_por_id ?s1 c = Some pc"
    using assms(2) adicionar_produto_areas_catalogo [of s area ?n1]
    by (simp add: ProdutoCatalogo_buscar_por_id_def)
  have e2: "r2 = ((ProdutoAdicionado, Success), adicionar_produto ?s1 area ?n2)"
    unfolding assms(8) e1 snd_conv
    by (rule adicionar_produto_na_area_aceito [OF a1 c1 assms(3) assms(4) assms(6)])
  have novo: "instancias_do_lote s area c ?L = [] \<longrightarrow>
          produtos (snd r1) = produtos s @
             [\<lparr>id_catalogo_produto = c, nome = nome_catalogo pc, quantidade = q1,
               data_validade = d1, lote = ?L,
               id_instancia = novo_id (produtos s), area_ref = id_area area\<rparr>]
          \<and> novo_id (produtos s) \<notin> id_instancia ` set (produtos s)
          \<and> instancias_do_lote (snd r2) area c ?L
              = [\<lparr>id_catalogo_produto = c, nome = nome_catalogo pc, quantidade = q1 + q2,
                  data_validade = d1, lote = ?L,
                  id_instancia = novo_id (produtos s), area_ref = id_area area\<rparr>]
          \<and> length (produtos (snd r2)) = length (produtos s) + 1
          \<and> filter (\<lambda>p. \<not> ?K p) (produtos (snd r2)) = filter (\<lambda>p. \<not> ?K p) (produtos s)"
  proof
    assume none: "instancias_do_lote s area c ?L = []"
    let ?row = "\<lparr>id_catalogo_produto = c, nome = nome_catalogo pc, quantidade = q1,
               data_validade = d1, lote = ?L,
               id_instancia = novo_id (produtos s), area_ref = id_area area\<rparr>"
    from none have s1: "?s1 = s\<lparr>produtos := produtos s @ [?row]\<rparr>"
      using adicionar_produto_novo [of s area ?n1] by simp
    from none have "instancias_do_lote ?s1 area c ?L = [?row]"
      by (simp add: s1 instancias_do_lote_filter)
    then have "instancias_do_lote ?s1 area (id_catalogo_produto ?n2) (lote ?n2) = ?row # []"
      by simp
    from adicionar_produto_existente [OF this] obtain ps' where ps':
      "adicionar_produto ?s1 area ?n2 = ?s1\<lparr>produtos := ps'\<rparr>"
      "instancias_do_lote (?s1\<lparr>produtos := ps'\<rparr>) area c ?L
         = [?row\<lparr>quantidade := quantidade ?row + q2\<rparr>]"
      "filter (\<lambda>p. \<not> ?K p) ps' = filter (\<lambda>p. \<not> ?K p) (produtos ?s1)"
      "length ps' = length (produtos ?s1)"
      by auto
    show "produtos (snd r1) = produtos s @ [?row]
          \<and> novo_id (produtos s) \<notin> id_instancia ` set (produtos s)
          \<and> instancias_do_lote (snd r2) area c ?L
              = [\<lparr>id_catalogo_produto = c, nome = nome_catalogo pc, quantidade = q1 + q2,
                  data_validade = d1, lote = ?L,
                  id_instancia = novo_id (produtos s), area_ref = id_area area\<rparr>]
          \<and> length (produtos (snd r2)) = length (produtos s) + 1
          \<and> filter (\<lambda>p. \<not> ?K p) (produtos (snd r2)) = filter (\<lambda>p. \<not> ?K p) (produtos s)"
      using ps' novo_id_fresco [of "produtos s"]
      by (simp add: e1 e2 s1)
  qed
  have existente: "\<forall>r rs. instancias_do_lote s area c ?L = r # rs \<longrightarrow>
          instancias_do_lote (snd r2) area c ?L = r\<lparr>quantidade := quantidade r + q1 + q2\<rparr> # rs
          \<and> length (produtos (snd r2)) = length (produtos s)
          \<and> filter (\<lambda>p. \<not> ?K p) (produtos (snd r2)) = filter (\<lambda>p. \<not> ?K p) (produtos s)"
  proof (intro allI impI)
    fix r rs
    assume "instancias_do_lote s area c ?L = r # rs"
    then have "instancias_do_lote s area (id_catalogo_produto ?n1) (lote ?n1) = r # rs"
      by simp
    from adicionar_produto_existente [OF this] obtain ps1 where ps1:
      "?s1 = s\<lparr>produtos := ps1\<rparr>"
      "instancias_do_lote (s\<lparr>produtos := ps1\<rparr>) area c ?L = r\<lparr>quantidade := quantidade r + q1\<rparr> # rs"
      "filter (\<lambda>p. \<not> ?K p) ps1 = filter (\<lambda>p. \<not> ?K p) (produtos s)"
      "length ps1 = length (produtos s)"
      by auto
    from ps1(2) have
      "instancias_do_lote (s\<lparr>produtos := ps1\<rparr>) area (id_catalogo_produto ?n2) (lote ?n2)
         = r\<lparr>quantidade := quantidade r + q1\<rparr> # rs"
      by simp
    from adicionar_produto_existente [OF this] obtain ps2 where ps2:
      "adicionar_produto (s\<lparr>produtos := ps1\<rparr>) area ?n2 = s\<lparr>produtos := ps1, produtos := ps2\<rparr>"
      "instancias_do_lote (s\<lparr>produtos := ps1, produtos := ps2\<rparr>) area c ?L
         = r\<lparr>quantidade := quantidade r + q1, quantidade := quantidade r + q1 + q2\<rparr> # rs"
      "filter (\<lambda>p. \<not> ?K p) ps2 = filter (\<lambda>p. \<not> ?K p) ps1"
      "length ps2 = length ps1"
      by auto
    show "instancias_do_lote (snd r2) area c ?L = r\<lparr>quantidade := quantidade r + q1 + q2\<rparr> # rs
          \<and> length (produtos (snd r2)) = length (produtos s)
          \<and> filter (\<lambda>p. \<not> ?K p) (produtos (snd r2)) = filter (\<lambda>p. \<not> ?K p) (produtos s)"
      using ps1 ps2 by (simp add: e2)
  qed
  have resto: "filter (\<lambda>p. \<not> ?K p) (produtos (snd r2)) = filter (\<lambda>p. \<not> ?K p) (produtos s)"
  proof (cases "instancias_do_lote s area c ?L")
    case Nil
    with novo show ?thesis by blast
  next
    case (Cons r rs)
    with existente show ?thesis by blast
  qed
  have f1: "fst r1 = (ProdutoAdicionado, Success)" by (simp add: e1)
  have f2: "fst r2 = (ProdutoAdicionado, Success)" by (simp add: e2)
  from f1 f2 novo existente resto show ?thesis
    by blast
qed

theorem add_twice_merges_witness:
  "instancias_do_lote
     (snd (adicionar_produto_na_area
        (snd (adicionar_produto_na_area armazem_exemplo ''A1''
           \<lparr>form_id_produto_catalogo = ''LEITE'', form_quantidade = Valor 2,
            form_data_validade = Valor 738900, form_lote = '' l9 ''\<rparr>))
        ''A1''
        \<lparr>form_id_produto_catalogo = ''LEITE'', form_quantidade = Valor 4,
         form_data_validade = Valor 738910, form_lote = '' l9 ''\<rparr>))
     area_a1 ''LEITE'' ''L9''
   = [\<lparr>id_catalogo_produto = ''LEITE'', nome = ''Leite'', quantidade = 6,
       data_validade = 738900, lote = ''L9'', id_instancia = 4, area_ref = ''A1''\<rparr>]
   \<and> instancias_do_lote
     (snd (adicionar_produto_na_area
        (snd (adicionar_produto_na_area armazem_exemplo ''A1''
           \<lparr>form_id_produto_catalogo = ''LEITE'', form_quantidade = Valor 2,
            form_data_validade = Valor 738900, form_lote = ''l1''\<rparr>))
        ''A1''
        \<lparr>form_id_produto_catalogo = ''LEITE'', form_quantidade = Valor 4,
         form_data_validade = Valor 738910, form_lote = ''l1''\<rparr>))
     area_a1 ''LEITE'' ''L1''
   = [inst_1\<lparr>quantidade := 11\<rparr>]"
proof -
  let ?pc = "\<lparr>id_produto = ''LEITE'', nome_catalogo = ''Leite''\<rparr>"
  have a: "AreaArmazem_buscar_por_id armazem_exemplo ''A1'' = Some area_a1"
    by (simp add: exemplo_buscas)
  have c: "ProdutoCatalogo_buscar_por_id armazem_exemplo ''LEITE'' = Some ?pc"
    by (simp add: ProdutoCatalogo_buscar_por_id_def armazem_exemplo_def)
  have u9: "upper (strip '' l9 '') = ''L9''" by code_simp
  have u1: "upper (strip ''l1'') = ''L1''" by code_simp
  have n9: "instancias_do_lote armazem_exemplo area_a1 ''LEITE'' ''L9'' = []"
    by (simp add: instancias_do_lote_def exemplo_buscas inst_1_def inst_3_def)
  have n1: "instancias_do_lote armazem_exemplo area_a1 ''LEITE'' ''L1'' = [inst_1]"
    by (simp add: instancias_do_lote_def exemplo_buscas inst_1_def inst_3_def)
  have ni: "novo_id (produtos armazem_exemplo) = 4"
    by (simp add: novo_id_def armazem_exemplo_def inst_1_def inst_2_def inst_3_def)
  have ar: "id_area area_a1 = ''A1''" by (simp add: area_a1_def)
  have q: "quantidade inst_1 + 2 + 4 = 11" by (simp add: inst_1_def)
  from add_twice_merges [OF a c _ _ _ _ refl refl, of "'' l9 ''" 2 4 738900 738910] n9
  have w9: "instancias_do_lote
     (snd (adicionar_produto_na_area
        (snd (adicionar_produto_na_area armazem_exemplo ''A1''
           \<lparr>form_id_produto_catalogo = ''LEITE'', form_quantidade = Valor 2,
            form_data_validade = Valor 738900, form_lote = '' l9 ''\<rparr>))
        ''A1''
        \<lparr>form_id_produto_catalogo = ''LEITE'', form_quantidade = Valor 4,
         form_data_validade = Valor 738910, form_lote = '' l9 ''\<rparr>))
     area_a1 ''LEITE'' ''L9''
   = [\<lparr>id_catalogo_produto = ''LEITE'', nome = ''Leite'', quantidade = 6,
       data_validade = 738900, lote = ''L9'', id_instancia = 4, area_ref = ''A1''\<rparr>]"
    by (simp add: u9 ni ar)
  from add_twice_merges [OF a c _ _ _ _ refl refl, of "''l1''" 2 4 738900 738910] n1
  have w1: "instancias_do_lote
     (snd (adicionar_produto_na_area
        (snd (adicionar_produto_na_area armazem_exemplo ''A1''
           \<lparr>form_id_produto_catalogo = ''LEITE'', form_quantidade = Valor 2,
            form_data_validade = Valor 738900, form_lote = ''l1''\<rparr>))
        ''A1''
        \<lparr>form_id_produto_catalogo = ''LEITE'', form_quantidade = Valor 4,
         form_data_validade = Valor 738910, form_lote = ''l1''\<rparr>))
     area_a1 ''LEITE'' ''L1''
   = [inst_1\<lparr>quantidade := 11\<rparr>]"
    by (simp add: u1 q)
  from w9 w1 show ?thesis by blast
qed

section \<open>Lot codes\<close>











lemma adicionar_produto_na_area_sucesso:
  assumes "AreaArmazem_buscar_por_id s ida = Some area"
      and "fst (adicionar_produto_na_area s ida f) = (ProdutoAdicionado, Success)"
  shows "\<exists>novo. snd (adicionar_produto_na_area s ida f) = adicionar_produto s area novo
           \<and> id_catalogo_produto novo = form_id_produto_catalogo f
           \<and> lote novo = upper (strip (form_lote f))"
  using assms
  by (auto simp: adicionar_produto_na_area_def split: if_splits campo.splits option.splits)

lemma find_map_atualiza:
  "find (\<lambda>x. id_instancia x = i) ps = Some p \<Longrightarrow>
   find (\<lambda>x. id_instancia x = i)
     (map (\<lambda>x. if id_instancia x = i then x\<lparr>quantidade := q, data_validade := d, lote := l\<rparr> else x) ps)
   = Some (p\<lparr>quantidade := q, data_validade := d, lote := l\<rparr>)"
  by (induction ps) (auto split: if_splits)

lemma editar_produto_em_area_sucesso:
  assumes "fst (editar_produto_em_area s ida i m g) = Some (ProdutoAtualizado, Success)"
  shows "map_option lote
           (ProdutoLacteo_buscar_instancia_por_id (snd (editar_produto_em_area s ida i m g)) i)
         = Some (upper (strip (editar_lote g)))"
proof -
  from assms obtain p q d where h:
    "ProdutoLacteo_buscar_instancia_por_id s i = Some p"
    "editar_quantidade g = Valor q" "editar_data_validade g = Valor d"
    "snd (editar_produto_em_area s ida i m g)
       = snd (atualizar_instancia s p q (Valor d) (upper (strip (editar_lote g))))"
    by (auto simp: editar_produto_em_area_def atualizar_instancia_def
          split: if_splits campo.splits option.splits)
  from h(1) have f: "find (\<lambda>x. id_instancia x = i) (produtos s) = Some p"
    by (simp add: ProdutoLacteo_buscar_instancia_por_id_def)
  then have "id_instancia p = i" by (auto simp: find_Some_iff)
  with find_map_atualiza [OF f, where q = q and d = d and l = "upper (strip (editar_lote g))"] show ?thesis
    by (simp add: h(4) atualizar_instancia_def ProdutoLacteo_buscar_instancia_por_id_def)
qed













end
